theory Spec2Isabelle
  imports Complex_Main
begin

section \<open>Python values\<close>

text \<open>
  A Python \<open>str\<close> is modelled as the list of the bytes of its UTF-8 encoding, so the
  accented letters of the messages are two bytes each. Emptiness, equality and the
  lexicographic order of \<open>str\<close> agree with those of the encoded bytes.
\<close>

definition a_acute :: string where "a_acute = [CHR 0xC3, CHR 0xA1]"
definition e_acute :: string where "e_acute = [CHR 0xC3, CHR 0xA9]"
definition i_acute :: string where "i_acute = [CHR 0xC3, CHR 0xAD]"
definition o_acute :: string where "o_acute = [CHR 0xC3, CHR 0xB3]"
definition n_tilde :: string where "n_tilde = [CHR 0xC3, CHR 0xB1]"
definition quote :: string where "quote = [CHR 0x27]"
definition newline :: string where "newline = [CHR 0x0A]"

text \<open>Truth value of an \<open>Optional[str]\<close>: \<open>None\<close> and the empty string are false.\<close>

definition truthy :: "string option \<Rightarrow> bool" where
  "truthy s = (case s of None \<Rightarrow> False | Some x \<Rightarrow> x \<noteq> [])"

text \<open>\<open>a > b\<close> on two \<open>str\<close>: lexicographic, by code.\<close>

fun str_gt :: "string \<Rightarrow> string \<Rightarrow> bool" where
  "str_gt [] _ = False"
| "str_gt (a # as) [] = True"
| "str_gt (a # as) (b # bs) =
     (if a = b then str_gt as bs else (of_char b :: nat) < of_char a)"

text \<open>\<open>str(n)\<close> of an integer: decimal digits, a minus sign when negative.\<close>

definition digit_char :: "nat \<Rightarrow> char" where
  "digit_char d = ''0123456789'' ! d"

fun str_nat :: "nat \<Rightarrow> string" where
  "str_nat n = (if n < 10 then [digit_char n] else str_nat (n div 10) @ [digit_char (n mod 10)])"

declare str_nat.simps [simp del]

definition str_int :: "int \<Rightarrow> string" where
  "str_int i = (if i < 0 then ''-'' @ str_nat (nat (- i)) else str_nat (nat i))"

text \<open>
  A Python \<open>float\<close> is held as the real number it is exactly. The arithmetic of
  floats rounds, and is not computed here: where the code multiplies, subtracts or
  converts floats, the operation is a parameter of the model, named where it is used.
\<close>

section \<open>The database connection\<close>

text \<open>
  A query argument is \<open>None\<close>, a \<open>str\<close> or an \<open>int\<close>. The connection is the external
  collaborator: \<open>connect\<close> is \<open>Some msg\<close> when \<open>psycopg.connect\<close> raises an exception
  whose text is \<open>msg\<close>, and \<open>execute\<close> gives the rows that \<open>cur.execute\<close> followed
  by \<open>cur.fetchall\<close> returns for a statement and its arguments, or the text of the
  exception raised. Every operation returns, beside its response, the trace of what it
  asked of the database.
\<close>

datatype param = PNone | PStr string | PInt int

definition opt_param :: "string option \<Rightarrow> param" where
  "opt_param s = (case s of None \<Rightarrow> PNone | Some x \<Rightarrow> PStr x)"

datatype event = Connect | Execute string "param list"

record 'r db =
  connect :: "string option"
  execute :: "string \<Rightarrow> param list \<Rightarrow> string + 'r list"

text \<open>
  The driver's scan of a statement template: \<open>%s\<close> is a placeholder, \<open>%%\<close> a literal
  percent sign. \<open>split_placeholders acc q\<close> cuts the template at its placeholders and
  returns the text that precedes each one; \<open>acc\<close> holds, reversed, the text read
  since the last cut.
\<close>

fun split_placeholders :: "string \<Rightarrow> string \<Rightarrow> string list" where
  "split_placeholders acc [] = []"
| "split_placeholders acc [c] = []"
| "split_placeholders acc (c # d # cs) =
     (if c = CHR ''%'' \<and> d = CHR ''s'' then rev acc # split_placeholders [] cs
      else if c = CHR ''%'' \<and> d = CHR ''%'' then split_placeholders (d # c # acc) cs
      else split_placeholders (c # acc) (d # cs))"

definition placeholders :: "string \<Rightarrow> string list" where
  "placeholders q = split_placeholders [] q"

section \<open>Date validation\<close>

text \<open>
  \<open>validar_fecha\<close> calls \<open>datetime.strptime(fecha_str, "%Y-%m-%d")\<close> and answers
  whether it raised. The library turns the format into the regular expression
  \<open>(\d\d\d\d)-(1[0-2]|0[1-9]|[1-9])-(3[0-1]|[1-2]\d|0[1-9]|[1-9]| [1-9])\<close>,
  matches it at the start of the string, raises when text remains after the match, and
  then raises when the three numbers, read by \<open>int\<close>, are not a date of the calendar
  (years 1 to 9999). The alternatives are tried in the order written.

  The class \<open>\d\<close> of a pattern on \<open>str\<close> is every decimal digit of Unicode, and
  \<open>int\<close> reads each with its value; the ranges in brackets are the ASCII digits
  only. The decimal digits come in runs of ten, zero to nine: \<open>nd_bases\<close> lists the
  code of the zero of each run (Unicode 14, the tables of CPython 3.11). Since a
  \<open>str\<close> is held as its UTF-8 bytes, a digit is read by decoding one code point.
\<close>

definition nd_bases :: "nat list" where
  "nd_bases =
     [0x30, 0x660, 0x6F0, 0x7C0, 0x966, 0x9E6, 0xA66, 0xAE6,
      0xB66, 0xBE6, 0xC66, 0xCE6, 0xD66, 0xDE6, 0xE50, 0xED0,
      0xF20, 0x1040, 0x1090, 0x17E0, 0x1810, 0x1946, 0x19D0, 0x1A80,
      0x1A90, 0x1B50, 0x1BB0, 0x1C40, 0x1C50, 0xA620, 0xA8D0, 0xA900,
      0xA9D0, 0xA9F0, 0xAA50, 0xABF0, 0xFF10, 0x104A0, 0x10D30, 0x11066,
      0x110F0, 0x11136, 0x111D0, 0x112F0, 0x11450, 0x114D0, 0x11650, 0x116C0,
      0x11730, 0x118E0, 0x11950, 0x11C50, 0x11D50, 0x11DA0, 0x16A60, 0x16AC0,
      0x16B50, 0x1D7CE, 0x1D7D8, 0x1D7E2, 0x1D7EC, 0x1D7F6, 0x1E140, 0x1E2F0,
      0x1E950, 0x1FBF0]"

fun utf8_decode :: "string \<Rightarrow> (nat \<times> string) option" where
  "utf8_decode [] = None"
| "utf8_decode (c # r) =
     (let b = (of_char c :: nat) in
      if b < 128 then Some (b, r)
      else if 192 \<le> b \<and> b < 224 then
        (case r of
           c1 # r1 \<Rightarrow> Some ((b - 192) * 64 + (of_char c1 - 128), r1)
         | _ \<Rightarrow> None)
      else if 224 \<le> b \<and> b < 240 then
        (case r of
           c1 # c2 # r2 \<Rightarrow>
             Some (((b - 224) * 64 + (of_char c1 - 128)) * 64 + (of_char c2 - 128), r2)
         | _ \<Rightarrow> None)
      else if 240 \<le> b \<and> b < 248 then
        (case r of
           c1 # c2 # c3 # r3 \<Rightarrow>
             Some ((((b - 240) * 64 + (of_char c1 - 128)) * 64 + (of_char c2 - 128)) * 64
                     + (of_char c3 - 128), r3)
         | _ \<Rightarrow> None)
      else None)"

text \<open>
  A reader takes the start of a text and gives the number read and the rest.
  \<open>digito\<close> is \<open>\d\<close>; \<open>rango lo hi\<close> is the bracket \<open>[lo-hi]\<close> of ASCII digits;
  \<open>seguido p q\<close> reads two digits, one after the other, as a number.
\<close>

type_synonym reader = "string \<Rightarrow> (nat \<times> string) option"

definition digito :: reader where
  "digito s =
     (case utf8_decode s of
        None \<Rightarrow> None
      | Some (cp, r) \<Rightarrow>
          (case find (\<lambda>b. b \<le> cp \<and> cp < b + 10) nd_bases of
             None \<Rightarrow> None
           | Some b \<Rightarrow> Some (cp - b, r)))"

definition rango :: "char \<Rightarrow> char \<Rightarrow> reader" where
  "rango lo hi s =
     (case s of
        [] \<Rightarrow> None
      | c # r \<Rightarrow>
          if (of_char lo :: nat) \<le> of_char c \<and> (of_char c :: nat) \<le> of_char hi
          then Some (of_char c - 48, r) else None)"

definition seguido :: "reader \<Rightarrow> reader \<Rightarrow> reader" where
  "seguido p q s =
     (case p s of
        None \<Rightarrow> None
      | Some (a, r) \<Rightarrow> (case q r of None \<Rightarrow> None | Some (b, r') \<Rightarrow> Some (10 * a + b, r')))"

definition espacio_digito :: reader where
  "espacio_digito s =
     (case s of
        [] \<Rightarrow> None
      | c # r \<Rightarrow> if c = CHR '' '' then rango CHR ''1'' CHR ''9'' r else None)"

definition match_Y :: reader where
  "match_Y s =
     (case seguido digito digito s of
        None \<Rightarrow> None
      | Some (a, r) \<Rightarrow>
          (case seguido digito digito r of
             None \<Rightarrow> None
           | Some (b, r') \<Rightarrow> Some (100 * a + b, r')))"

text \<open>Each alternative of a group that matches, in the order of the alternatives.\<close>

definition alternativas :: "reader list \<Rightarrow> string \<Rightarrow> (nat \<times> string) list" where
  "alternativas ps s = concat (map (\<lambda>p. case p s of None \<Rightarrow> [] | Some x \<Rightarrow> [x]) ps)"

definition match_m :: "string \<Rightarrow> (nat \<times> string) list" where
  "match_m =
     alternativas
       [seguido (rango CHR ''1'' CHR ''1'') (rango CHR ''0'' CHR ''2''),
        seguido (rango CHR ''0'' CHR ''0'') (rango CHR ''1'' CHR ''9''),
        rango CHR ''1'' CHR ''9'']"

definition match_d :: "string \<Rightarrow> (nat \<times> string) list" where
  "match_d =
     alternativas
       [seguido (rango CHR ''3'' CHR ''3'') (rango CHR ''0'' CHR ''1''),
        seguido (rango CHR ''1'' CHR ''2'') digito,
        seguido (rango CHR ''0'' CHR ''0'') (rango CHR ''1'' CHR ''9''),
        rango CHR ''1'' CHR ''9'',
        espacio_digito]"

text \<open>
  The first match of month, dash and day in the order of the alternatives: the month's
  alternative is given up when no dash or no day follows it.
\<close>

fun match_md :: "(nat \<times> string) list \<Rightarrow> (nat \<times> nat \<times> string) option" where
  "match_md [] = None"
| "match_md ((m, r) # alts) =
     (case r of
        c # r' \<Rightarrow>
          if c = CHR ''-'' then
            (case match_d r' of (d, r'') # _ \<Rightarrow> Some (m, d, r'') | [] \<Rightarrow> match_md alts)
          else match_md alts
      | [] \<Rightarrow> match_md alts)"

definition leap_year :: "nat \<Rightarrow> bool" where
  "leap_year y = (y mod 4 = 0 \<and> (y mod 100 \<noteq> 0 \<or> y mod 400 = 0))"

definition days_in_month :: "nat \<Rightarrow> nat \<Rightarrow> nat" where
  "days_in_month y m =
     (if m = 2 then (if leap_year y then 29 else 28)
      else if m = 4 \<or> m = 6 \<or> m = 9 \<or> m = 11 then 30 else 31)"

definition strptime :: "string \<Rightarrow> (nat \<times> nat \<times> nat) option" where
  "strptime s =
     (case match_Y s of
        None \<Rightarrow> None
      | Some (y, r) \<Rightarrow>
          (case r of
             [] \<Rightarrow> None
           | c # r' \<Rightarrow>
               if c \<noteq> CHR ''-'' then None
               else (case match_md (match_m r') of
                       None \<Rightarrow> None
                     | Some (m, d, rest) \<Rightarrow>
                         if rest \<noteq> [] then None
                         else if 1 \<le> y \<and> 1 \<le> d \<and> d \<le> days_in_month y m then Some (y, m, d)
                         else None)))"

definition validar_fecha :: "string \<Rightarrow> bool" where
  "validar_fecha fecha_str = (strptime fecha_str \<noteq> None)"

section \<open>The messages of the validation\<close>

text \<open>
  The two invoice servers word their four validation failures alike; the tool server
  puts \<open>Error: \<close> in front, the HTTP server sends the text as the detail of a 400.
\<close>

definition msg_estado :: string where
  "msg_estado = ''Estado inv'' @ a_acute @ ''lido. Usa '' @ quote @ ''PENDIENTE'' @ quote
     @ '' o '' @ quote @ ''PAGADA'' @ quote @ ''.''"

definition msg_fecha_inicio :: string where
  "msg_fecha_inicio = ''Formato de fecha_inicio inv'' @ a_acute @ ''lido. Usa '' @ quote
     @ ''YYYY-MM-DD'' @ quote @ '' (ej: 2024-11-01).''"

definition msg_fecha_fin :: string where
  "msg_fecha_fin = ''Formato de fecha_fin inv'' @ a_acute @ ''lido. Usa '' @ quote
     @ ''YYYY-MM-DD'' @ quote @ '' (ej: 2024-11-30).''"

definition msg_rango :: string where
  "msg_rango = ''La fecha_inicio no puede ser posterior a fecha_fin.''"

text \<open>The value of an \<open>Optional[str]\<close> that a test has found true.\<close>

definition the_str :: "string option \<Rightarrow> string" where
  "the_str s = (case s of None \<Rightarrow> [] | Some x \<Rightarrow> x)"

section \<open>The invoice query\<close>

text \<open>
  The statement of \<open>consultar_mis_facturas\<close> and \<open>consultar_facturas\<close>: the base text,
  which differs between the servers only in its line breaks, then one clause and one
  argument for each filter that is true, then the ordering and the limit.
\<close>

definition base_agent :: string where
  "base_agent = newline
     @ ''                    SELECT numero_factura, estado_legible, fecha_emision, '' @ newline
     @ ''                           moneda, total'' @ newline
     @ ''                    FROM view_ai_facturas'' @ newline
     @ ''                    WHERE emisor_cif = %s '' @ newline
     @ ''                ''"

definition base_http :: string where
  "base_http = newline
     @ ''                    SELECT numero_factura, estado_legible, fecha_emision, moneda, total'' @ newline
     @ ''                    FROM view_ai_facturas'' @ newline
     @ ''                    WHERE emisor_cif = %s '' @ newline
     @ ''                ''"

definition facturas_query ::
  "string \<Rightarrow> string option \<Rightarrow> string option \<Rightarrow> string option \<Rightarrow> string option \<Rightarrow> int
     \<Rightarrow> string \<times> param list" where
  "facturas_query base cif estado fecha_inicio fecha_fin limit =
     (let (query, params) = (base, [opt_param cif]);
          (query, params) =
            (if truthy estado
             then (query @ '' AND estado_legible = %s'', params @ [opt_param estado])
             else (query, params));
          (query, params) =
            (if truthy fecha_inicio
             then (query @ '' AND fecha_emision >= %s'', params @ [opt_param fecha_inicio])
             else (query, params));
          (query, params) =
            (if truthy fecha_fin
             then (query @ '' AND fecha_emision <= %s'', params @ [opt_param fecha_fin])
             else (query, params))
      in (query @ '' ORDER BY fecha_emision DESC LIMIT %s'', params @ [PInt limit]))"

section \<open>The tool server (agent\_server.py)\<close>

text \<open>
  A row of the invoice query is the mapping the driver builds from the columns of the
  \<open>SELECT\<close> list, hence a record of them. The values keep the driver's types
  (decimal, date, text), of which the server only takes the text: \<open>py_str\<close> stands
  for Python's \<open>str\<close> on them.
\<close>

record 'v factura =
  numero_factura :: 'v
  estado_legible :: 'v
  moneda :: 'v
  total' :: 'v

record 'v factura_row = "'v factura" +
  fecha_emision :: 'v

record 'v factura_calle = "'v factura" +
  emisor_direccion_calle :: string

record 'v propiedad_row = "'v factura_calle" +
  score :: real

definition join :: "string \<Rightarrow> string list \<Rightarrow> string" where
  "join sep xs = (case xs of [] \<Rightarrow> [] | y # ys \<Rightarrow> foldl (\<lambda>acc x. acc @ sep @ x) y ys)"

definition filtros_texto :: "string option \<Rightarrow> string option \<Rightarrow> string option \<Rightarrow> string list" where
  "filtros_texto estado fecha_inicio fecha_fin =
     (if truthy estado then [''estado: '' @ the_str estado] else [])
     @ (if truthy fecha_inicio \<and> truthy fecha_fin
        then [''periodo: '' @ the_str fecha_inicio @ '' a '' @ the_str fecha_fin]
        else if truthy fecha_inicio then [''desde: '' @ the_str fecha_inicio]
        else if truthy fecha_fin then [''hasta: '' @ the_str fecha_fin]
        else [])"

definition factura_linea :: "('v \<Rightarrow> string) \<Rightarrow> 'v factura_row \<Rightarrow> string" where
  "factura_linea py_str row =
     ''- Factura '' @ py_str (numero_factura row) @ '' ('' @ py_str (estado_legible row) @ ''): ''
     @ py_str (total' row) @ '' '' @ py_str (moneda row) @ ''. ''
     @ ''Fecha: '' @ py_str (fecha_emision row) @ newline"

definition resumen ::
  "('v \<Rightarrow> string) \<Rightarrow> string option \<Rightarrow> string option \<Rightarrow> string option \<Rightarrow> 'v factura_row list
     \<Rightarrow> string" where
  "resumen py_str estado fecha_inicio fecha_fin rows =
     (let resultado = ''Encontr'' @ e_acute @ '' '' @ str_nat (length rows) @ '' factura(s)'';
          filtros = filtros_texto estado fecha_inicio fecha_fin;
          resultado = (if filtros \<noteq> [] then resultado @ '' ('' @ join '', '' filtros @ '')''
                       else resultado);
          resultado = resultado @ '':'' @ newline @ newline
      in foldl (\<lambda>resultado row. resultado @ factura_linea py_str row) resultado rows)"

definition error_facturacion :: string where
  "error_facturacion = ''Error en sistema de facturaci'' @ o_acute @ ''n: ''"

definition sin_facturas :: string where
  "sin_facturas = ''No se encontraron facturas con esos criterios.''"

definition consultar_mis_facturas ::
  "('v \<Rightarrow> string) \<Rightarrow> string option \<Rightarrow> 'v factura_row db
     \<Rightarrow> string option \<Rightarrow> string option \<Rightarrow> string option \<Rightarrow> int \<Rightarrow> string \<times> event list" where
  "consultar_mis_facturas py_str CURRENT_AGENT_CIF conn estado fecha_inicio fecha_fin limit =
     (if truthy estado \<and> the_str estado \<notin> set [''PENDIENTE'', ''PAGADA'']
      then (''Error: '' @ msg_estado, [])
      else if truthy fecha_inicio \<and> \<not> validar_fecha (the_str fecha_inicio)
      then (''Error: '' @ msg_fecha_inicio, [])
      else if truthy fecha_fin \<and> \<not> validar_fecha (the_str fecha_fin)
      then (''Error: '' @ msg_fecha_fin, [])
      else if truthy fecha_inicio \<and> truthy fecha_fin
              \<and> str_gt (the_str fecha_inicio) (the_str fecha_fin)
      then (''Error: '' @ msg_rango, [])
      else
        (case connect conn of
           Some e \<Rightarrow> (error_facturacion @ ''Error conectando a la BD: '' @ e, [Connect])
         | None \<Rightarrow>
             (let (query, params) =
                    facturas_query base_agent CURRENT_AGENT_CIF estado fecha_inicio fecha_fin limit
              in case execute conn query params of
                   Inl e \<Rightarrow> (error_facturacion @ e, [Connect, Execute query params])
                 | Inr rows \<Rightarrow>
                     (if rows = [] then sin_facturas
                      else resumen py_str estado fecha_inicio fecha_fin rows,
                      [Connect, Execute query params]))))"

text \<open>The search by address: the term goes in twice, around the agent's key.\<close>

definition propiedad_query :: string where
  "propiedad_query = newline
     @ ''                    SELECT '' @ newline
     @ ''                        numero_factura, '' @ newline
     @ ''                        estado_legible, '' @ newline
     @ ''                        total, '' @ newline
     @ ''                        moneda,'' @ newline
     @ ''                        emisor_direccion_calle,'' @ newline
     @ ''                        similarity(emisor_direccion_calle, %s) as score'' @ newline
     @ ''                    FROM view_ai_facturas'' @ newline
     @ ''                    WHERE emisor_cif = %s '' @ newline
     @ ''                    AND emisor_direccion_calle %% %s  -- <--- AQU'' @ [CHR 0xC3, CHR 0x8D]
     @ '' EST'' @ [CHR 0xC3, CHR 0x81] @ '' EL CAMBIO (%%)'' @ newline
     @ ''                    ORDER BY score DESC'' @ newline
     @ ''                    LIMIT 3;'' @ newline
     @ ''                ''"

text \<open>
  \<open>int_por_cien\<close> stands for Python's \<open>int(score * 100)\<close> on the float of the row:
  the product rounded to a float, then truncated.
\<close>

definition propiedad_linea :: "('v \<Rightarrow> string) \<Rightarrow> (real \<Rightarrow> int) \<Rightarrow> 'v propiedad_row \<Rightarrow> string" where
  "propiedad_linea py_str int_por_cien row =
     ''- [Coincidencia: '' @ str_int (int_por_cien (score row)) @ ''%] ''
     @ ''Propiedad: '' @ quote @ emisor_direccion_calle row @ quote @ '' -> ''
     @ ''Factura '' @ py_str (numero_factura row) @ '' ('' @ py_str (estado_legible row) @ ''): ''
     @ py_str (total' row) @ '' '' @ py_str (moneda row) @ ''.'' @ newline"

definition sin_propiedad :: "string \<Rightarrow> string" where
  "sin_propiedad query_direccion =
     ''No encontr'' @ e_acute @ '' ninguna factura relacionada con la direcci'' @ o_acute @ ''n ''
     @ quote @ query_direccion @ quote @ ''.''"

definition resultados ::
  "('v \<Rightarrow> string) \<Rightarrow> (real \<Rightarrow> int) \<Rightarrow> string \<Rightarrow> 'v propiedad_row list \<Rightarrow> string" where
  "resultados py_str int_por_cien query_direccion rows =
     (let resultado = ''Resultados para '' @ quote @ query_direccion @ quote @ '':'' @ newline
      in foldl (\<lambda>resultado row. resultado @ propiedad_linea py_str int_por_cien row) resultado rows)"

definition buscar_factura_por_propiedad ::
  "('v \<Rightarrow> string) \<Rightarrow> (real \<Rightarrow> int) \<Rightarrow> string option \<Rightarrow> 'v propiedad_row db \<Rightarrow> string
     \<Rightarrow> string \<times> event list" where
  "buscar_factura_por_propiedad py_str int_por_cien CURRENT_AGENT_CIF conn query_direccion =
     (case connect conn of
        Some e \<Rightarrow> (''Error buscando propiedad: '' @ ''Error conectando a la BD: '' @ e, [Connect])
      | None \<Rightarrow>
          (let params = [PStr query_direccion, opt_param CURRENT_AGENT_CIF, PStr query_direccion]
           in case execute conn propiedad_query params of
                Inl e \<Rightarrow> (''Error buscando propiedad: '' @ e, [Connect, Execute propiedad_query params])
              | Inr rows \<Rightarrow>
                  (if rows = [] then sin_propiedad query_direccion
                   else resultados py_str int_por_cien query_direccion rows,
                   [Connect, Execute propiedad_query params])))"

section \<open>The database on a search statement\<close>

text \<open>
  What the database answers to a statement of the form of the search by address, over a
  view of invoices. The statement is read as the database reads it: comments from
  \<open>--\<close> to the end of the line are dropped and the rest is cut into words at white
  space. The words up to the filter must be those of the search: the columns with the
  similarity of the address to the first argument as \<open>score\<close>, from the view, where the
  issuer is the second argument and the address matches the third under the trigram
  operator. What follows decides the rest: \<open>ORDER BY score DESC\<close>, when written,
  sorts the rows by descending score, and \<open>LIMIT n\<close>, when written, keeps the first
  \<open>n\<close>. A key that is \<open>NULL\<close> equals no issuer. The trigram functions of the
  database, \<open>similarity\<close> and the operator with its floor, are parameters.
\<close>

record 'v vista_row = "'v factura_calle" +
  emisor_cif :: string

definition con_score :: "real \<Rightarrow> 'v vista_row \<Rightarrow> 'v propiedad_row" where
  "con_score s v =
     \<lparr>numero_factura = numero_factura v, estado_legible = estado_legible v, moneda = moneda v,
      total' = total' v, emisor_direccion_calle = emisor_direccion_calle v, score = s\<rparr>"

fun sin_comentarios :: "bool \<Rightarrow> string \<Rightarrow> string" where
  "sin_comentarios en_comentario [] = []"
| "sin_comentarios True (c # r) =
     (if c = CHR 0x0A then c # sin_comentarios False r else sin_comentarios True r)"
| "sin_comentarios False [c] = [c]"
| "sin_comentarios False (c # d # r) =
     (if c = CHR ''-'' \<and> d = CHR ''-'' then sin_comentarios True r
      else c # sin_comentarios False (d # r))"

definition es_blanco :: "char \<Rightarrow> bool" where
  "es_blanco c = (c = CHR '' '' \<or> c = CHR 0x0A \<or> c = CHR 0x09 \<or> c = CHR 0x0D)"

fun palabras_desde :: "string \<Rightarrow> string \<Rightarrow> string list" where
  "palabras_desde acc [] = (if acc = [] then [] else [rev acc])"
| "palabras_desde acc (c # r) =
     (if es_blanco c
      then (if acc = [] then palabras_desde [] r else rev acc # palabras_desde [] r)
      else palabras_desde (c # acc) r)"

definition palabras :: "string \<Rightarrow> string list" where
  "palabras q = palabras_desde [] (sin_comentarios False q)"

fun leer_nat :: "nat \<Rightarrow> string \<Rightarrow> nat option" where
  "leer_nat n [] = Some n"
| "leer_nat n (c # r) =
     (if (of_char CHR ''0'' :: nat) \<le> of_char c \<and> (of_char c :: nat) \<le> of_char CHR ''9''
      then leer_nat (10 * n + (of_char c - 48)) r else None)"

definition leer_limite :: "string \<Rightarrow> nat option" where
  "leer_limite w =
     (let digits = (if w \<noteq> [] \<and> last w = CHR '';'' then butlast w else w)
      in if digits = [] then None else leer_nat 0 digits)"

definition cabecera_busqueda :: "string list" where
  "cabecera_busqueda =
     [''SELECT'', ''numero_factura,'', ''estado_legible,'', ''total,'', ''moneda,'',
      ''emisor_direccion_calle,'', ''similarity(emisor_direccion_calle,'', ''%s)'', ''as'',
      ''score'', ''FROM'', ''view_ai_facturas'', ''WHERE'', ''emisor_cif'', ''='', ''%s'',
      ''AND'', ''emisor_direccion_calle'', ''%%'', ''%s'']"

definition ejecutar_busqueda ::
  "(string \<Rightarrow> string \<Rightarrow> real) \<Rightarrow> (string \<Rightarrow> string \<Rightarrow> bool) \<Rightarrow> 'v vista_row list
     \<Rightarrow> string \<Rightarrow> param list \<Rightarrow> string + 'v propiedad_row list" where
  "ejecutar_busqueda similarity trgm view q ps =
     (let ws = palabras q in
      if take (length cabecera_busqueda) ws \<noteq> cabecera_busqueda then Inl ''syntax error''
      else
        (case ps of
           [PStr t1, k, PStr t2] \<Rightarrow>
             (let rows = map (\<lambda>v. con_score (similarity (emisor_direccion_calle v) t1) v)
                           (filter (\<lambda>v. k = PStr (emisor_cif v) \<and> trgm (emisor_direccion_calle v) t2)
                              view);
                  cola = drop (length cabecera_busqueda) ws;
                  (rows, cola) =
                    (if take 4 cola = [''ORDER'', ''BY'', ''score'', ''DESC'']
                     then (rev (sort_key score rows), drop 4 cola) else (rows, cola))
              in case cola of
                   [] \<Rightarrow> Inr rows
                 | [w] \<Rightarrow> (if w = '';'' then Inr rows else Inl ''syntax error'')
                 | [w, n] \<Rightarrow>
                     (if w = ''LIMIT''
                      then (case leer_limite n of
                              Some m \<Rightarrow> Inr (take m rows)
                            | None \<Rightarrow> Inl ''syntax error'')
                      else Inl ''syntax error'')
                 | _ \<Rightarrow> Inl ''syntax error'')
         | _ \<Rightarrow> Inl ''the query has 3 placeholders''))"

definition vista_db ::
  "(string \<Rightarrow> string \<Rightarrow> real) \<Rightarrow> (string \<Rightarrow> string \<Rightarrow> bool) \<Rightarrow> 'v vista_row list
     \<Rightarrow> 'v propiedad_row db" where
  "vista_db similarity trgm view =
     \<lparr>connect = None, execute = ejecutar_busqueda similarity trgm view\<rparr>"

section \<open>The tool server with the gatekeeper (agent\_server\_sse.py)\<close>

text \<open>
  The connection of this server also holds the identity table \<open>contacto_agentes\<close>,
  rows of email and key, and the database's \<open>LOWER\<close>, its folding of case. The
  gatekeeper's statement is answered from the table: \<open>fetchone\<close> takes the first row
  whose lowered email equals the lowered argument. \<open>lookup_error\<close> is \<open>Some msg\<close>
  when the execution of the gatekeeper's statement raises an exception of the driver
  whose text is \<open>msg\<close>. The gatekeeper raises that exception, or a \<open>ValueError\<close>
  with the text of the denial; the tools report the text of either.
\<close>

record 'r sse_db = "'r db" +
  contacto_agentes :: "(string \<times> string) list"
  sql_lower :: "string \<Rightarrow> string"
  lookup_error :: "string option"

datatype py_exception = ValueError string | DatabaseError string

fun str_exception :: "py_exception \<Rightarrow> string" where
  "str_exception (ValueError msg) = msg"
| "str_exception (DatabaseError msg) = msg"

definition gatekeeper_query :: string where
  "gatekeeper_query = ''SELECT cif FROM contacto_agentes WHERE LOWER(email) = LOWER(%s)''"

definition acceso_denegado :: "string \<Rightarrow> string" where
  "acceso_denegado email =
     ''ACCESO DENEGADO: El email '' @ email @ '' no est'' @ a_acute @ '' autorizado.''"

definition resolve_cif_from_email ::
  "string \<Rightarrow> ('r, 'z) sse_db_scheme \<Rightarrow> (py_exception + string) \<times> event list" where
  "resolve_cif_from_email email conn =
     (case lookup_error conn of
        Some e \<Rightarrow> (Inl (DatabaseError e), [Execute gatekeeper_query [PStr email]])
      | None \<Rightarrow>
          (let result = find (\<lambda>(e, cif). sql_lower conn e = sql_lower conn email)
                          (contacto_agentes conn)
           in (case result of
                 None \<Rightarrow> Inl (ValueError (acceso_denegado email))
               | Some (e, cif) \<Rightarrow> Inr cif,
               [Execute gatekeeper_query [PStr email]])))"

definition facturas_query_sse ::
  "string \<Rightarrow> string \<Rightarrow> string option \<Rightarrow> string option \<Rightarrow> int \<Rightarrow> string \<times> param list" where
  "facturas_query_sse base real_cif estado fecha_inicio limit =
     (let (query, params) = (base, [PStr real_cif]);
          (query, params) =
            (if truthy estado
             then (query @ '' AND estado_legible = %s'', params @ [opt_param estado])
             else (query, params));
          (query, params) =
            (if truthy fecha_inicio
             then (query @ '' AND fecha_emision >= %s'', params @ [opt_param fecha_inicio])
             else (query, params))
      in (query @ '' ORDER BY fecha_emision DESC LIMIT %s'', params @ [PInt limit]))"

text \<open>
  The statement's base text is the one of the HTTP server. \<open>str_rows\<close> stands for
  Python's \<open>str\<close> on the list of rows.
\<close>

definition consultar_mis_facturas_sse ::
  "('r list \<Rightarrow> string) \<Rightarrow> 'r sse_db \<Rightarrow> string \<Rightarrow> string option \<Rightarrow> string option \<Rightarrow> int
     \<Rightarrow> string \<times> event list" where
  "consultar_mis_facturas_sse str_rows conn email_agente estado fecha_inicio limit =
     (if truthy estado \<and> the_str estado \<notin> set [''PENDIENTE'', ''PAGADA'']
      then (''Error: Estado inv'' @ a_acute @ ''lido.'', [])
      else
        (case connect conn of
           Some e \<Rightarrow> (''Error del sistema: '' @ e, [Connect])
         | None \<Rightarrow>
             (case resolve_cif_from_email email_agente conn of
                (Inl e, tr) \<Rightarrow> (''Error del sistema: '' @ str_exception e, Connect # tr)
              | (Inr real_cif, tr) \<Rightarrow>
                  (let (query, params) = facturas_query_sse base_http real_cif estado fecha_inicio limit
                   in case execute conn query params of
                        Inl e \<Rightarrow> (''Error del sistema: '' @ e, Connect # tr @ [Execute query params])
                      | Inr rows \<Rightarrow>
                          (if rows = [] then ''No se encontraron facturas.'' else str_rows rows,
                           Connect # tr @ [Execute query params])))))"

definition propiedad_query_sse :: string where
  "propiedad_query_sse = newline
     @ ''                    SELECT numero_factura, estado_legible, total, moneda, '' @ newline
     @ ''                           emisor_direccion_calle,'' @ newline
     @ ''                           similarity(emisor_direccion_calle, %s) as score'' @ newline
     @ ''                    FROM view_ai_facturas'' @ newline
     @ ''                    WHERE emisor_cif = %s '' @ newline
     @ ''                    AND emisor_direccion_calle %% %s '' @ newline
     @ ''                    ORDER BY score DESC LIMIT 3;'' @ newline
     @ ''                ''"

definition buscar_factura_por_propiedad_sse ::
  "('r list \<Rightarrow> string) \<Rightarrow> 'r sse_db \<Rightarrow> string \<Rightarrow> string \<Rightarrow> string \<times> event list" where
  "buscar_factura_por_propiedad_sse str_rows conn email_agente query_direccion =
     (case connect conn of
        Some e \<Rightarrow> (''Error: '' @ e, [Connect])
      | None \<Rightarrow>
          (case resolve_cif_from_email email_agente conn of
             (Inl e, tr) \<Rightarrow> (''Error: '' @ str_exception e, Connect # tr)
           | (Inr real_cif, tr) \<Rightarrow>
               (let params = [PStr query_direccion, PStr real_cif, PStr query_direccion]
                in case execute conn propiedad_query_sse params of
                     Inl e \<Rightarrow> (''Error: '' @ e, Connect # tr @ [Execute propiedad_query_sse params])
                   | Inr rows \<Rightarrow>
                       (if rows = [] then ''No se encontr'' @ o_acute @ '' nada.'' else str_rows rows,
                        Connect # tr @ [Execute propiedad_query_sse params]))))"

section \<open>The HTTP invoice server (facturacion\_server.py)\<close>

text \<open>
  An endpoint returns a JSON body or raises an \<open>HTTPException\<close> with a status and a
  detail. The body is a JSON value; an object keeps its keys in order, and the rows of
  a result go into the body as the driver gave them. The text of an \<open>HTTPException\<close>
  under \<open>str\<close> is its status, a colon and its detail.
\<close>

datatype http_error = HTTPException nat string

datatype 'r json =
    JNull
  | JInt int
  | JFloat real
  | JStr string
  | JRows "'r list"
  | JObj "(string \<times> 'r json) list"

definition json_str :: "string option \<Rightarrow> 'r json" where
  "json_str s = (case s of None \<Rightarrow> JNull | Some x \<Rightarrow> JStr x)"

fun str_http :: "http_error \<Rightarrow> string" where
  "str_http (HTTPException status detail) = str_nat status @ '': '' @ detail"

record facturas_request =
  estado :: "string option"
  fecha_inicio :: "string option"
  fecha_fin :: "string option"
  limit :: int

definition conexion_facturacion :: string where
  "conexion_facturacion =
     ''Error de conexi'' @ o_acute @ ''n con el sistema de facturaci'' @ o_acute @ ''n''"

definition consultar_facturas ::
  "'r db \<Rightarrow> facturas_request \<Rightarrow> string option \<Rightarrow> (http_error + 'r json) \<times> event list" where
  "consultar_facturas conn req x_agent_cif =
     (if truthy (estado req) \<and> the_str (estado req) \<notin> set [''PENDIENTE'', ''PAGADA'']
      then (Inl (HTTPException 400 msg_estado), [])
      else if truthy (fecha_inicio req) \<and> \<not> validar_fecha (the_str (fecha_inicio req))
      then (Inl (HTTPException 400 msg_fecha_inicio), [])
      else if truthy (fecha_fin req) \<and> \<not> validar_fecha (the_str (fecha_fin req))
      then (Inl (HTTPException 400 msg_fecha_fin), [])
      else if truthy (fecha_inicio req) \<and> truthy (fecha_fin req)
              \<and> str_gt (the_str (fecha_inicio req)) (the_str (fecha_fin req))
      then (Inl (HTTPException 400 msg_rango), [])
      else
        (case connect conn of
           Some e \<Rightarrow>
             (Inl (HTTPException 500 (str_http (HTTPException 500 conexion_facturacion))), [Connect])
         | None \<Rightarrow>
             (let (query, params) =
                    facturas_query base_http x_agent_cif (estado req) (fecha_inicio req)
                      (fecha_fin req) (limit req)
              in case execute conn query params of
                   Inl e \<Rightarrow> (Inl (HTTPException 500 e), [Connect, Execute query params])
                 | Inr rows \<Rightarrow>
                     (Inr (JObj
                        [(''count'', JInt (int (length rows))),
                         (''data'', JRows rows),
                         (''filtros_aplicados'', JObj
                            [(''estado'', json_str (estado req)),
                             (''fecha_inicio'', json_str (fecha_inicio req)),
                             (''fecha_fin'', json_str (fecha_fin req)),
                             (''limit'', JInt (limit req)),
                             (''agent_cif'', json_str x_agent_cif)])]),
                      [Connect, Execute query params]))))"

section \<open>The HTTP performance server (performance\_server.py)\<close>

text \<open>
  The rows of the two performance statements, by the names of their columns. A column
  may be \<open>NULL\<close>, which the driver gives as \<open>None\<close>; the sums of the aggregate
  statement are \<open>NULL\<close> when no row matches. An amount is the real number the
  driver's decimal is. \<open>fetchone\<close> takes the first row of the result, or \<open>None\<close>.

  The arithmetic of floats is a pair of parameters: \<open>float_de\<close> stands for Python's
  \<open>float\<close> on a decimal, the float nearest to it, and \<open>menos\<close> for the difference
  of two floats, rounded.
\<close>

record anual_row =
  ventas :: "int option"
  facturado :: "real option"
  cobrado :: "real option"

record total_row =
  total_ventas :: "int option"
  total_facturado :: "real option"
  total_cobrado :: "real option"

record perf_db =
  perf_connect :: "string option"
  execute_anual :: "string \<Rightarrow> param list \<Rightarrow> string + anual_row list"
  execute_total :: "string \<Rightarrow> param list \<Rightarrow> string + total_row list"

record performance_request =
  anyo :: "int option"

definition fetchone :: "'a list \<Rightarrow> 'a option" where
  "fetchone rows = (case rows of [] \<Rightarrow> None | r # _ \<Rightarrow> Some r)"

text \<open>\<open>float(x)\<close> raises a \<open>TypeError\<close> on \<open>None\<close>.\<close>

definition float_none :: string where
  "float_none = ''float() argument must be a string or a real number, not ''
     @ quote @ ''NoneType'' @ quote"

definition py_float :: "(real \<Rightarrow> real) \<Rightarrow> real option \<Rightarrow> string + real" where
  "py_float float_de x = (case x of None \<Rightarrow> Inl float_none | Some r \<Rightarrow> Inr (float_de r))"

definition json_int :: "int option \<Rightarrow> 'r json" where
  "json_int x = (case x of None \<Rightarrow> JNull | Some i \<Rightarrow> JInt i)"

definition query_anual :: string where
  "query_anual = newline
     @ ''                        SELECT ventas, facturado, cobrado'' @ newline
     @ ''                        FROM view_agente_performance_anual'' @ newline
     @ ''                        WHERE correo = %s AND anyo = %s'' @ newline
     @ ''                    ''"

definition query_total :: string where
  "query_total = newline
     @ ''                        SELECT '' @ newline
     @ ''                            SUM(ventas) as total_ventas,'' @ newline
     @ ''                            SUM(facturado) as total_facturado,'' @ newline
     @ ''                            SUM(cobrado) as total_cobrado'' @ newline
     @ ''                        FROM view_agente_performance_anual'' @ newline
     @ ''                        WHERE correo = %s'' @ newline
     @ ''                    ''"

definition conexion_performance :: string where
  "conexion_performance = ''Error de conexi'' @ o_acute @ ''n con el sistema de performance''"

definition historico :: string where
  "historico = ''Hist'' @ o_acute @ ''rico Total''"

definition anual ::
  "(real \<Rightarrow> real) \<Rightarrow> (real \<Rightarrow> real \<Rightarrow> real) \<Rightarrow> int \<Rightarrow> anual_row option
     \<Rightarrow> http_error + 'r json" where
  "anual float_de menos y row =
     (case row of
        None \<Rightarrow>
          Inr (JObj
            [(''periodo'', JInt y),
             (''tipo'', JStr ''Anual''),
             (''mensaje'', JStr (''No hay datos registrados para el a'' @ n_tilde @ ''o ''
                                  @ str_int y @ ''.'')),
             (''data'', JObj
                [(''ventas'', JInt 0), (''facturado'', JFloat 0.0), (''cobrado'', JFloat 0.0)])])
      | Some r \<Rightarrow>
          (case py_float float_de (facturado r) of
             Inl e \<Rightarrow> Inl (HTTPException 500 e)
           | Inr f \<Rightarrow>
               (case py_float float_de (cobrado r) of
                  Inl e \<Rightarrow> Inl (HTTPException 500 e)
                | Inr c \<Rightarrow>
                    Inr (JObj
                      [(''periodo'', JInt y),
                       (''tipo'', JStr ''Anual''),
                       (''data'', JObj
                          [(''ventas'', json_int (ventas r)),
                           (''facturado'', JFloat f),
                           (''cobrado'', JFloat c),
                           (''pendiente_cobro'', JFloat (menos f c))])]))))"

definition sin_datos_acumulado :: "'r json" where
  "sin_datos_acumulado =
     JObj
       [(''periodo'', JStr historico),
        (''tipo'', JStr ''Acumulado''),
        (''mensaje'', JStr ''No hay datos registrados para este agente.''),
        (''data'', JObj
           [(''ventas'', JInt 0), (''facturado'', JFloat 0.0), (''cobrado'', JFloat 0.0),
            (''pendiente_cobro'', JFloat 0.0)])]"

text \<open>
  \<open>float(x) if x else 0.0\<close>: \<open>None\<close> and a zero sum are false and give \<open>0.0\<close>.
\<close>

definition float_or_zero :: "(real \<Rightarrow> real) \<Rightarrow> real option \<Rightarrow> real" where
  "float_or_zero float_de x =
     (case x of None \<Rightarrow> 0.0 | Some r \<Rightarrow> if r \<noteq> 0 then float_de r else 0.0)"

definition acumulado ::
  "(real \<Rightarrow> real) \<Rightarrow> (real \<Rightarrow> real \<Rightarrow> real) \<Rightarrow> total_row option \<Rightarrow> 'r json" where
  "acumulado float_de menos row =
     (case row of
        None \<Rightarrow> sin_datos_acumulado
      | Some r \<Rightarrow>
          (case total_ventas r of
             None \<Rightarrow> sin_datos_acumulado
           | Some v \<Rightarrow>
               (let ventas = v;
                    facturado = float_or_zero float_de (total_facturado r);
                    cobrado = float_or_zero float_de (total_cobrado r)
                in JObj
                     [(''periodo'', JStr historico),
                      (''tipo'', JStr ''Acumulado''),
                      (''data'', JObj
                         [(''ventas'', JInt ventas),
                          (''facturado'', JFloat facturado),
                          (''cobrado'', JFloat cobrado),
                          (''pendiente_cobro'', JFloat (menos facturado cobrado))])])))"

definition obtener_performance ::
  "(real \<Rightarrow> real) \<Rightarrow> (real \<Rightarrow> real \<Rightarrow> real) \<Rightarrow> perf_db \<Rightarrow> performance_request \<Rightarrow> string
     \<Rightarrow> (http_error + 'r json) \<times> event list" where
  "obtener_performance float_de menos conn req x_agent_email =
     (case perf_connect conn of
        Some e \<Rightarrow>
          (Inl (HTTPException 500 (str_http (HTTPException 500 conexion_performance))), [Connect])
      | None \<Rightarrow>
          (case (case anyo req of None \<Rightarrow> None | Some y \<Rightarrow> if y \<noteq> 0 then Some y else None) of
             Some y \<Rightarrow>
               (let params = [PStr x_agent_email, PInt y]
                in (case execute_anual conn query_anual params of
                      Inl e \<Rightarrow> Inl (HTTPException 500 e)
                    | Inr rows \<Rightarrow> anual float_de menos y (fetchone rows),
                    [Connect, Execute query_anual params]))
           | None \<Rightarrow>
               (let params = [PStr x_agent_email]
                in (case execute_total conn query_total params of
                      Inl e \<Rightarrow> Inl (HTTPException 500 e)
                    | Inr rows \<Rightarrow> Inr (acumulado float_de menos (fetchone rows)),
                    [Connect, Execute query_total params]))))"

text \<open>The market statistics by zone; the rows go into the body as they are.\<close>

record zona_stats_request =
  nombre_zona :: "string option"
  limit :: int

definition base_zonas :: string where
  "base_zonas = newline
     @ ''                    SELECT zona, num_ventas, precio_medio, precio_m2_medio, total_honorarios''
     @ newline
     @ ''                    FROM view_stats_zonas'' @ newline
     @ ''                ''"

definition str_optional :: "string option \<Rightarrow> string" where
  "str_optional s = (case s of None \<Rightarrow> ''None'' | Some x \<Rightarrow> x)"

definition zonas_query :: "zona_stats_request \<Rightarrow> string \<times> param list" where
  "zonas_query req =
     (let (query, params) = (base_zonas, []);
          (query, params) =
            (if truthy (nombre_zona req)
             then (query @ '' WHERE zona ILIKE %s'',
                   params @ [PStr (''%'' @ the_str (nombre_zona req) @ ''%'')])
             else (query, params))
      in (query @ '' ORDER BY num_ventas DESC LIMIT %s'',
          params @ [PInt (zona_stats_request.limit req)]))"

definition consultar_stats_zonas ::
  "'r db \<Rightarrow> zona_stats_request \<Rightarrow> (http_error + 'r json) \<times> event list" where
  "consultar_stats_zonas conn req =
     (case connect conn of
        Some e \<Rightarrow>
          (Inl (HTTPException 500 (str_http (HTTPException 500 conexion_performance))), [Connect])
      | None \<Rightarrow>
          (let (query, params) = zonas_query req
           in case execute conn query params of
                Inl e \<Rightarrow> (Inl (HTTPException 500 e), [Connect, Execute query params])
              | Inr rows \<Rightarrow>
                  (if rows = []
                   then Inr (JObj
                     [(''mensaje'', JStr (''No se encontraron datos para la zona '' @ quote
                                          @ str_optional (nombre_zona req) @ quote)),
                      (''data'', JRows [])])
                   else Inr (JObj
                     [(''count'', JInt (int (length rows))),
                      (''tipo_busqueda'', JStr (if truthy (nombre_zona req)
                                                then ''Espec'' @ i_acute @ ''fica''
                                                else ''Top Mercado'')),
                      (''data'', JRows rows)]),
                   [Connect, Execute query params])))"

section \<open>The vocabulary of the specification\<close>

text \<open>
  The definitions of this section are not taken from the code: they say, in the words of
  the specification, what the code is compared with. \<open>starts_with\<close> and
  \<open>ends_with\<close> are Python's \<open>startswith\<close> and \<open>endswith\<close>.
\<close>

fun starts_with :: "string \<Rightarrow> string \<Rightarrow> bool" where
  "starts_with s [] = True"
| "starts_with [] (p # ps) = False"
| "starts_with (c # cs) (p # ps) = (c = p \<and> starts_with cs ps)"

definition ends_with :: "string \<Rightarrow> string \<Rightarrow> bool" where
  "ends_with s suffix = starts_with (rev s) (rev suffix)"

text \<open>
  The argument list the specification gives for the invoice statement: the authorization
  key, then the status, the start date and the end date, each only if present, then the
  limit. \<open>columnas\<close> is, in the same order, the end of the text that precedes the
  placeholder of each argument.
\<close>

definition argumentos ::
  "string option \<Rightarrow> string option \<Rightarrow> string option \<Rightarrow> string option \<Rightarrow> int \<Rightarrow> param list" where
  "argumentos cif e fi ff n =
     [opt_param cif]
     @ (if truthy e then [opt_param e] else [])
     @ (if truthy fi then [opt_param fi] else [])
     @ (if truthy ff then [opt_param ff] else [])
     @ [PInt n]"

definition columnas :: "string option \<Rightarrow> string option \<Rightarrow> string option \<Rightarrow> string list" where
  "columnas e fi ff =
     [''WHERE emisor_cif = '']
     @ (if truthy e then ['' AND estado_legible = ''] else [])
     @ (if truthy fi then ['' AND fecha_emision >= ''] else [])
     @ (if truthy ff then ['' AND fecha_emision <= ''] else [])
     @ ['' LIMIT '']"



text \<open>
  The result the specification gives for the search by address: of the rows of the agent
  whose address matches the term, with their similarity to the term as score, the three
  of highest score, by descending score.
\<close>

definition select_propiedad ::
  "(string \<Rightarrow> string \<Rightarrow> real) \<Rightarrow> (string \<Rightarrow> string \<Rightarrow> bool) \<Rightarrow> 'v vista_row list
     \<Rightarrow> string \<Rightarrow> string \<Rightarrow> 'v propiedad_row list" where
  "select_propiedad similarity trgm view term cif =
     take 3 (rev (sort_key score
       (map (\<lambda>v. con_score (similarity (emisor_direccion_calle v) term) v)
          (filter (\<lambda>v. emisor_cif v = cif \<and> trgm (emisor_direccion_calle v) term) view))))"

text \<open>
  A request is rejected when it fails one of the four checks of the validation: the
  status is present and not in the enumeration, a date is present and not a valid date,
  or both dates are present and the first is the greater text.
\<close>

definition rechazado :: "string option \<Rightarrow> string option \<Rightarrow> string option \<Rightarrow> bool" where
  "rechazado e fi ff =
     ((truthy e \<and> the_str e \<notin> set [''PENDIENTE'', ''PAGADA''])
      \<or> (truthy fi \<and> \<not> validar_fecha (the_str fi))
      \<or> (truthy ff \<and> \<not> validar_fecha (the_str ff))
      \<or> (truthy fi \<and> truthy ff \<and> str_gt (the_str fi) (the_str ff)))"

text \<open>The tool servers word every failure as a text that begins with \<open>Error\<close>.\<close>

definition es_error :: "string \<Rightarrow> bool" where
  "es_error s = starts_with s ''Error''"

text \<open>
  The filters named in the summary, case by case: the status when present, and the
  dates as \<open>periodo\<close> when both are present, \<open>desde\<close> or \<open>hasta\<close> when one is.
\<close>

definition eco :: "string option \<Rightarrow> string option \<Rightarrow> string option \<Rightarrow> string" where
  "eco e fi ff =
     (if truthy e then
        (if truthy fi \<and> truthy ff
         then '' (estado: '' @ the_str e @ '', periodo: '' @ the_str fi @ '' a '' @ the_str ff @ '')''
         else if truthy fi then '' (estado: '' @ the_str e @ '', desde: '' @ the_str fi @ '')''
         else if truthy ff then '' (estado: '' @ the_str e @ '', hasta: '' @ the_str ff @ '')''
         else '' (estado: '' @ the_str e @ '')'')
      else
        (if truthy fi \<and> truthy ff
         then '' (periodo: '' @ the_str fi @ '' a '' @ the_str ff @ '')''
         else if truthy fi then '' (desde: '' @ the_str fi @ '')''
         else if truthy ff then '' (hasta: '' @ the_str ff @ '')''
         else []))"

section \<open>Example data\<close>

text \<open>
  A connection that answers every statement with the given rows and one that cannot be
  opened; the three invoices of
  November 2024 of the agent \<open>B12345678\<close>, with their values as texts; and a
  connection that answers with them exactly when asked for the paid invoices of that
  agent between 2024-11-01 and 2024-11-30 with limit 5.
\<close>

definition db_filas :: "'r list \<Rightarrow> 'r db" where
  "db_filas rows = \<lparr>connect = None, execute = (\<lambda>q ps. Inr rows)\<rparr>"

definition db_caida :: "'r db" where
  "db_caida = \<lparr>connect = Some ''connection refused'', execute = (\<lambda>q ps. Inr [])\<rparr>"

definition facturas_ejemplo :: "string factura_row list" where
  "facturas_ejemplo =
     [\<lparr>numero_factura = ''F-003'', estado_legible = ''PAGADA'', moneda = ''EUR'',
        total' = ''1500.00'', fecha_emision = ''2024-11-28''\<rparr>,
      \<lparr>numero_factura = ''F-002'', estado_legible = ''PAGADA'', moneda = ''EUR'',
        total' = ''980.50'', fecha_emision = ''2024-11-15''\<rparr>,
      \<lparr>numero_factura = ''F-001'', estado_legible = ''PAGADA'', moneda = ''EUR'',
        total' = ''2100.00'', fecha_emision = ''2024-11-02''\<rparr>]"

definition db_ejemplo :: "string factura_row db" where
  "db_ejemplo =
     \<lparr>connect = None,
      execute = (\<lambda>q ps.
        if ps = [PStr ''B12345678'', PStr ''PAGADA'', PStr ''2024-11-01'', PStr ''2024-11-30'', PInt 5]
        then Inr facturas_ejemplo else Inr [])\<rparr>"

text \<open>
  A gatekeeper's connection whose identity table has two agents and whose \<open>LOWER\<close>
  lowers the ASCII letters, and a performance connection whose view has no row for
  anyone: the annual statement returns nothing and the sums of the aggregate statement
  are \<open>NULL\<close>.
\<close>

definition lower_char :: "char \<Rightarrow> char" where
  "lower_char c =
     (case map_of (zip ''ABCDEFGHIJKLMNOPQRSTUVWXYZ'' ''abcdefghijklmnopqrstuvwxyz'') c of
        None \<Rightarrow> c
      | Some d \<Rightarrow> d)"

definition ascii_lower :: "string \<Rightarrow> string" where
  "ascii_lower s = map lower_char s"

definition numeros :: "string factura_row list \<Rightarrow> string" where
  "numeros rows = ''['' @ join '', '' (map numero_factura rows) @ '']''"

definition sse_ejemplo :: "string factura_row sse_db" where
  "sse_ejemplo =
     \<lparr>connect = None,
      execute = (\<lambda>q ps. case ps of PStr k # _ \<Rightarrow> if k = ''B12345678'' then Inr facturas_ejemplo else Inr []
                         | _ \<Rightarrow> Inr []),
      contacto_agentes = [(''Ana@Inmo.es'', ''B12345678''), (''luis@inmo.es'', ''B87654321'')],
      sql_lower = ascii_lower,
      lookup_error = None\<rparr>"

definition perf_sin_filas :: perf_db where
  "perf_sin_filas =
     \<lparr>perf_connect = None,
      execute_anual = (\<lambda>q ps. Inr []),
      execute_total = (\<lambda>q ps.
        Inr [\<lparr>total_ventas = None, total_facturado = None, total_cobrado = None\<rparr>])\<rparr>"

text \<open>
  A view of six invoices, five of the agent \<open>B12345678\<close>, with a table of
  similarities to the term searched and the trigram operator with the floor 0.3.
\<close>

definition velazquez :: string where
  "velazquez = ''Calle Vel'' @ a_acute @ ''zquez 12''"

definition sim_ejemplo :: "string \<Rightarrow> string \<Rightarrow> real" where
  "sim_ejemplo calle t =
     (if calle = velazquez then 0.4375
      else if calle = ''Avenida Velazquez 3'' then 0.5
      else if calle = ''Paseo Velazquez'' then 0.625
      else if calle = ''Calle Vazquez 7'' then 0.375
      else 0.0625)"

definition trgm_ejemplo :: "string \<Rightarrow> string \<Rightarrow> bool" where
  "trgm_ejemplo calle t = (0.3 \<le> sim_ejemplo calle t)"

definition fila_vista :: "string \<Rightarrow> string \<Rightarrow> string \<Rightarrow> string vista_row" where
  "fila_vista cif numero calle =
     \<lparr>numero_factura = numero, estado_legible = ''PAGADA'', moneda = ''EUR'', total' = ''100.00'',
      emisor_direccion_calle = calle, emisor_cif = cif\<rparr>"

definition vista_ejemplo :: "string vista_row list" where
  "vista_ejemplo =
     [fila_vista ''B12345678'' ''F-001'' velazquez,
      fila_vista ''B12345678'' ''F-002'' ''Gran Via 1'',
      fila_vista ''B12345678'' ''F-003'' ''Calle Vazquez 7'',
      fila_vista ''B87654321'' ''F-004'' ''Paseo Velazquez'',
      fila_vista ''B12345678'' ''F-005'' ''Avenida Velazquez 3'',
      fila_vista ''B12345678'' ''F-006'' ''Paseo Velazquez'']"

text \<open>
  The gatekeeper's connection over that view, and the one whose lookup fails. For the
  scores of the view, which are binary fractions, \<open>int(score * 100)\<close> is the floor
  of the exact product. \<open>str_filas\<close> writes the rows of the view as Python's
  \<open>str\<close> writes the list of their mappings, the scores from \<open>repr_score\<close>, which
  holds the texts of the floats of the view.
\<close>

definition sse_vista :: "string propiedad_row sse_db" where
  "sse_vista =
     \<lparr>connect = None,
      execute = ejecutar_busqueda sim_ejemplo trgm_ejemplo vista_ejemplo,
      contacto_agentes = [(''Ana@Inmo.es'', ''B12345678''), (''luis@inmo.es'', ''B87654321'')],
      sql_lower = ascii_lower,
      lookup_error = None\<rparr>"

definition sse_caida :: "string factura_row sse_db" where
  "sse_caida =
     \<lparr>connect = None,
      execute = (\<lambda>q ps. Inr []),
      contacto_agentes = [(''Ana@Inmo.es'', ''B12345678'')],
      sql_lower = ascii_lower,
      lookup_error = Some ''relation contacto_agentes does not exist''\<rparr>"

definition por_cien_ejemplo :: "real \<Rightarrow> int" where
  "por_cien_ejemplo x = \<lfloor>x * 100\<rfloor>"

definition repr_score :: "real \<Rightarrow> string" where
  "repr_score x =
     (if x = 0.625 then ''0.625'' else if x = 0.5 then ''0.5''
      else if x = 0.4375 then ''0.4375'' else if x = 0.375 then ''0.375'' else ''0.0625'')"

definition str_fila :: "string propiedad_row \<Rightarrow> string" where
  "str_fila r =
     ''{'' @ quote @ ''numero_factura'' @ quote @ '': '' @ quote @ numero_factura r @ quote
     @ '', '' @ quote @ ''estado_legible'' @ quote @ '': '' @ quote @ estado_legible r @ quote
     @ '', '' @ quote @ ''total'' @ quote @ '': Decimal('' @ quote @ total' r @ quote @ '')''
     @ '', '' @ quote @ ''moneda'' @ quote @ '': '' @ quote @ moneda r @ quote
     @ '', '' @ quote @ ''emisor_direccion_calle'' @ quote @ '': '' @ quote
     @ emisor_direccion_calle r @ quote
     @ '', '' @ quote @ ''score'' @ quote @ '': '' @ repr_score (score r) @ ''}''"

definition str_filas :: "string propiedad_row list \<Rightarrow> string" where
  "str_filas rows = ''['' @ join '', '' (map str_fila rows) @ '']''"

section \<open>Properties\<close>

lemma foldl_append_concat: "foldl (\<lambda>acc x. acc @ f x) s xs = s @ concat (map f xs)"
  by (induction xs arbitrary: s) simp_all

lemma facturas_query_snd: "snd (facturas_query base cif e fi ff n) = argumentos cif e fi ff n"
  by (simp add: facturas_query_def argumentos_def)

lemma facturas_query_fst:
  "fst (facturas_query base cif e fi ff n) =
     base @ (if truthy e then '' AND estado_legible = %s'' else [])
       @ (if truthy fi then '' AND fecha_emision >= %s'' else [])
       @ (if truthy ff then '' AND fecha_emision <= %s'' else [])
       @ '' ORDER BY fecha_emision DESC LIMIT %s''"
  by (simp add: facturas_query_def)

lemma placeholders_agent:
  "list_all2 ends_with (placeholders (fst (facturas_query base_agent cif e fi ff n))) (columnas e fi ff)"
  unfolding facturas_query_fst
  by (cases "truthy e"; cases "truthy fi"; cases "truthy ff")
     (simp_all add: placeholders_def base_agent_def newline_def columnas_def ends_with_def)

lemma placeholders_http:
  "list_all2 ends_with (placeholders (fst (facturas_query base_http cif e fi ff n))) (columnas e fi ff)"
  unfolding facturas_query_fst
  by (cases "truthy e"; cases "truthy fi"; cases "truthy ff")
     (simp_all add: placeholders_def base_http_def newline_def columnas_def ends_with_def)

lemma length_argumentos:
  "length (argumentos cif e fi ff n) = 1 + length (filter truthy [e, fi, ff]) + 1"
  by (simp add: argumentos_def)

lemma resumen_eq:
  "resumen py_str e fi ff rows =
     ''Encontr'' @ e_acute @ '' '' @ str_nat (length rows) @ '' factura(s)'' @ eco e fi ff
       @ '':'' @ newline @ newline @ concat (map (factura_linea py_str) rows)"
  by (simp add: resumen_def filtros_texto_def eco_def join_def foldl_append_concat Let_def)

lemma resumen_no_error: "\<not> es_error (resumen py_str e fi ff rows)"
  by (simp add: resumen_eq es_error_def)

lemma agent_rechazado:
  assumes "rechazado e fi ff"
  shows "snd (consultar_mis_facturas py_str cif conn e fi ff n) = []"
    and "fst (consultar_mis_facturas py_str cif conn e fi ff n)
           \<in> {''Error: '' @ msg_estado, ''Error: '' @ msg_fecha_inicio,
               ''Error: '' @ msg_fecha_fin, ''Error: '' @ msg_rango}"
  using assms by (auto simp add: consultar_mis_facturas_def rechazado_def)

lemma agent_aceptado:
  assumes "\<not> rechazado e fi ff"
  shows "consultar_mis_facturas py_str cif conn e fi ff n =
     (case connect conn of
        Some err \<Rightarrow> (error_facturacion @ ''Error conectando a la BD: '' @ err, [Connect])
      | None \<Rightarrow>
          (case execute conn (fst (facturas_query base_agent cif e fi ff n)) (argumentos cif e fi ff n) of
             Inl err \<Rightarrow> error_facturacion @ err
           | Inr rows \<Rightarrow> if rows = [] then sin_facturas else resumen py_str e fi ff rows,
           [Connect, Execute (fst (facturas_query base_agent cif e fi ff n)) (argumentos cif e fi ff n)]))"
proof -
  obtain q ps where Q: "facturas_query base_agent cif e fi ff n = (q, ps)"
    by (cases "facturas_query base_agent cif e fi ff n")
  have ps: "ps = argumentos cif e fi ff n"
    using facturas_query_snd [of base_agent cif e fi ff n] Q by simp
  show ?thesis
    using assms Q ps
    by (auto simp add: consultar_mis_facturas_def rechazado_def split: option.splits sum.splits)
qed

lemma http_rechazado:
  assumes "rechazado e fi ff"
  shows "snd (consultar_facturas conn \<lparr>estado = e, fecha_inicio = fi, fecha_fin = ff, limit = n\<rparr> cif) = []"
    and "fst (consultar_facturas conn \<lparr>estado = e, fecha_inicio = fi, fecha_fin = ff, limit = n\<rparr> cif)
           \<in> {Inl (HTTPException 400 msg_estado), Inl (HTTPException 400 msg_fecha_inicio),
               Inl (HTTPException 400 msg_fecha_fin), Inl (HTTPException 400 msg_rango)}"
  using assms by (auto simp add: consultar_facturas_def rechazado_def)

lemma http_aceptado:
  assumes "\<not> rechazado e fi ff"
  shows "consultar_facturas conn \<lparr>estado = e, fecha_inicio = fi, fecha_fin = ff, limit = n\<rparr> cif =
     (case connect conn of
        Some err \<Rightarrow>
          (Inl (HTTPException 500 (str_http (HTTPException 500 conexion_facturacion))), [Connect])
      | None \<Rightarrow>
          (case execute conn (fst (facturas_query base_http cif e fi ff n)) (argumentos cif e fi ff n) of
             Inl err \<Rightarrow> Inl (HTTPException 500 err)
           | Inr rows \<Rightarrow>
               Inr (JObj
                 [(''count'', JInt (int (length rows))),
                  (''data'', JRows rows),
                  (''filtros_aplicados'', JObj
                     [(''estado'', json_str e),
                      (''fecha_inicio'', json_str fi),
                      (''fecha_fin'', json_str ff),
                      (''limit'', JInt n),
                      (''agent_cif'', json_str cif)])]),
           [Connect, Execute (fst (facturas_query base_http cif e fi ff n)) (argumentos cif e fi ff n)]))"
proof -
  obtain q ps where Q: "facturas_query base_http cif e fi ff n = (q, ps)"
    by (cases "facturas_query base_http cif e fi ff n")
  have ps: "ps = argumentos cif e fi ff n"
    using facturas_query_snd [of base_http cif e fi ff n] Q by simp
  show ?thesis
    using assms Q ps
    by (auto simp add: consultar_facturas_def rechazado_def split: option.splits sum.splits)
qed

lemmas fecha_defs =
  validar_fecha_def strptime_def match_Y_def match_m_def match_d_def alternativas_def
  seguido_def digito_def rango_def espacio_digito_def nd_bases_def days_in_month_def
  leap_year_def Let_def

lemma validar_fecha_ejemplos:
  "validar_fecha ''2024-11-01''" "validar_fecha ''2024-11-30''"
  "validar_fecha ''2024-10-01''" "validar_fecha ''2024-9-01''"
  by (simp_all add: fecha_defs)

lemma validar_fecha_ancho:
  "strptime ([CHR 0xEF, CHR 0xBC, CHR 0x92, CHR 0xEF, CHR 0xBC, CHR 0x90,
              CHR 0xEF, CHR 0xBC, CHR 0x92, CHR 0xEF, CHR 0xBC, CHR 0x94] @ ''-11-01'')
     = Some (2024, 11, 1)"
  by (simp add: fecha_defs)

lemma aceptado_ejemplo:
  "\<not> rechazado (Some ''PAGADA'') (Some ''2024-11-01'') (Some ''2024-11-30'')"
  by (simp add: rechazado_def truthy_def the_str_def validar_fecha_ejemplos)

lemma sse_estado:
  "truthy e \<and> the_str e \<notin> set [''PENDIENTE'', ''PAGADA''] \<Longrightarrow>
     consultar_mis_facturas_sse str_rows conn email e fi n
       = (''Error: Estado inv'' @ a_acute @ ''lido.'', [])"
  by (simp add: consultar_mis_facturas_sse_def)

lemma sse_estado_ok:
  "\<not> (truthy e \<and> the_str e \<notin> set [''PENDIENTE'', ''PAGADA'']) \<Longrightarrow>
     snd (consultar_mis_facturas_sse str_rows conn email e fi n) \<noteq> []"
  by (auto simp add: consultar_mis_facturas_sse_def resolve_cif_from_email_def Let_def
        split: option.splits sum.splits prod.splits py_exception.splits)

lemma agent_estado_ok:
  "\<not> (truthy e \<and> the_str e \<notin> set [''PENDIENTE'', ''PAGADA'']) \<Longrightarrow>
     fst (consultar_mis_facturas py_str cif conn e fi ff n) \<noteq> ''Error: '' @ msg_estado"
  by (auto simp add: consultar_mis_facturas_def resumen_eq msg_estado_def msg_fecha_inicio_def
        msg_fecha_fin_def msg_rango_def error_facturacion_def sin_facturas_def Let_def
        split: option.splits sum.splits prod.splits)

lemma http_estado_ok:
  "\<not> (truthy e \<and> the_str e \<notin> set [''PENDIENTE'', ''PAGADA'']) \<Longrightarrow>
     fst (consultar_facturas conn \<lparr>estado = e, fecha_inicio = fi, fecha_fin = ff, limit = n\<rparr> cif)
       \<noteq> Inl (HTTPException 400 msg_estado)"
  by (auto simp add: consultar_facturas_def msg_estado_def msg_fecha_inicio_def
        msg_fecha_fin_def msg_rango_def Let_def
        split: option.splits sum.splits prod.splits)

lemma agent_error:
  "rechazado e fi ff \<or> connect conn \<noteq> None
     \<or> isl (execute conn (fst (facturas_query base_agent cif e fi ff n)) (argumentos cif e fi ff n))
   \<Longrightarrow> es_error (fst (consultar_mis_facturas py_str cif conn e fi ff n))"
proof (cases "rechazado e fi ff")
  case True
  from agent_rechazado(2) [OF True, of py_str cif conn n] show ?thesis
    by (auto simp add: es_error_def)
next
  case False
  assume "rechazado e fi ff \<or> connect conn \<noteq> None
     \<or> isl (execute conn (fst (facturas_query base_agent cif e fi ff n)) (argumentos cif e fi ff n))"
  with False show ?thesis
    by (auto simp add: agent_aceptado es_error_def error_facturacion_def isl_def
          split: option.splits sum.splits)
qed

lemma http_error:
  "rechazado e fi ff \<or> connect conn \<noteq> None
     \<or> isl (execute conn (fst (facturas_query base_http cif e fi ff n)) (argumentos cif e fi ff n))
   \<Longrightarrow> isl (fst (consultar_facturas conn
                \<lparr>estado = e, fecha_inicio = fi, fecha_fin = ff, limit = n\<rparr> cif))"
proof (cases "rechazado e fi ff")
  case True
  from http_rechazado(2) [OF True, of conn n cif] show ?thesis
    by auto
next
  case False
  assume "rechazado e fi ff \<or> connect conn \<noteq> None
     \<or> isl (execute conn (fst (facturas_query base_http cif e fi ff n)) (argumentos cif e fi ff n))"
  with False show ?thesis
    by (auto simp add: http_aceptado isl_def split: option.splits sum.splits)
qed

lemma resolve_eq:
  "resolve_cif_from_email email conn =
     (case lookup_error conn of
        Some m \<Rightarrow> Inl (DatabaseError m)
      | None \<Rightarrow>
          (case find (\<lambda>r. sql_lower conn (fst r) = sql_lower conn email) (contacto_agentes conn) of
             None \<Rightarrow> Inl (ValueError (acceso_denegado email))
           | Some r \<Rightarrow> Inr (snd r)),
      [Execute gatekeeper_query [PStr email]])"
  by (simp add: resolve_cif_from_email_def Let_def case_prod_unfold split: option.splits)





lemma resolve_snd:
  "snd (resolve_cif_from_email email conn) = [Execute gatekeeper_query [PStr email]]"
  by (simp add: resolve_eq)

lemma resolve_ejemplos:
  "fst (resolve_cif_from_email ''LUIS@inmo.es'' sse_ejemplo) = Inr ''B87654321''"
  "fst (resolve_cif_from_email ''ana@inmo.es'' sse_ejemplo) = Inr ''B12345678''"
  by (simp_all add: resolve_cif_from_email_def sse_ejemplo_def ascii_lower_def lower_char_def)


lemma sse_consultar_eq:
  assumes "\<not> (truthy e \<and> the_str e \<notin> set [''PENDIENTE'', ''PAGADA''])"
  shows "consultar_mis_facturas_sse str_rows conn email e fi n =
     (case connect conn of
        Some err \<Rightarrow> (''Error del sistema: '' @ err, [Connect])
      | None \<Rightarrow>
          (case fst (resolve_cif_from_email email conn) of
             Inl ex \<Rightarrow>
               (''Error del sistema: '' @ str_exception ex,
                [Connect, Execute gatekeeper_query [PStr email]])
           | Inr k \<Rightarrow>
               (case execute conn (fst (facturas_query_sse base_http k e fi n))
                       (snd (facturas_query_sse base_http k e fi n)) of
                  Inl err \<Rightarrow> ''Error del sistema: '' @ err
                | Inr rows \<Rightarrow> if rows = [] then ''No se encontraron facturas.'' else str_rows rows,
                [Connect, Execute gatekeeper_query [PStr email],
                 Execute (fst (facturas_query_sse base_http k e fi n))
                   (snd (facturas_query_sse base_http k e fi n))])))"
proof -
  obtain res tr where R: "resolve_cif_from_email email conn = (res, tr)"
    by (cases "resolve_cif_from_email email conn")
  have tr: "tr = [Execute gatekeeper_query [PStr email]]"
    using resolve_snd [of email conn] R by simp
  show ?thesis
  proof (cases res)
    case (Inl ex)
    with assms R tr show ?thesis
      by (simp add: consultar_mis_facturas_sse_def split: option.splits)
  next
    case (Inr k)
    obtain q ps where Q: "facturas_query_sse base_http k e fi n = (q, ps)"
      by (cases "facturas_query_sse base_http k e fi n")
    from assms R tr Inr Q show ?thesis
      by (auto simp add: consultar_mis_facturas_sse_def split: option.splits sum.splits)
  qed
qed

lemma sse_buscar_eq:
  "buscar_factura_por_propiedad_sse str_rows conn email q =
     (case connect conn of
        Some err \<Rightarrow> (''Error: '' @ err, [Connect])
      | None \<Rightarrow>
          (case fst (resolve_cif_from_email email conn) of
             Inl ex \<Rightarrow>
               (''Error: '' @ str_exception ex, [Connect, Execute gatekeeper_query [PStr email]])
           | Inr k \<Rightarrow>
               (case execute conn propiedad_query_sse [PStr q, PStr k, PStr q] of
                  Inl err \<Rightarrow> ''Error: '' @ err
                | Inr rows \<Rightarrow> if rows = [] then ''No se encontr'' @ o_acute @ '' nada.''
                              else str_rows rows,
                [Connect, Execute gatekeeper_query [PStr email],
                 Execute propiedad_query_sse [PStr q, PStr k, PStr q]])))"
proof -
  obtain res tr where R: "resolve_cif_from_email email conn = (res, tr)"
    by (cases "resolve_cif_from_email email conn")
  have tr: "tr = [Execute gatekeeper_query [PStr email]]"
    using resolve_snd [of email conn] R by simp
  show ?thesis
    using R tr
    by (cases res)
       (auto simp add: buscar_factura_por_propiedad_sse_def Let_def split: option.splits sum.splits)
qed

lemma buscar_eq:
  "buscar_factura_por_propiedad py_str pct cif conn q =
     (case connect conn of
        Some err \<Rightarrow>
          (''Error buscando propiedad: '' @ ''Error conectando a la BD: '' @ err, [Connect])
      | None \<Rightarrow>
          (case execute conn propiedad_query [PStr q, opt_param cif, PStr q] of
             Inl err \<Rightarrow> ''Error buscando propiedad: '' @ err
           | Inr rows \<Rightarrow>
               if rows = [] then sin_propiedad q
               else ''Resultados para '' @ quote @ q @ quote @ '':'' @ newline
                      @ concat (map (propiedad_linea py_str pct) rows),
           [Connect, Execute propiedad_query [PStr q, opt_param cif, PStr q]]))"
  by (simp add: buscar_factura_por_propiedad_def resultados_def foldl_append_concat Let_def
        split: option.splits sum.splits)

lemma zonas_eq:
  "consultar_stats_zonas conn req =
     (case connect conn of
        Some err \<Rightarrow>
          (Inl (HTTPException 500 (str_http (HTTPException 500 conexion_performance))), [Connect])
      | None \<Rightarrow>
          (case execute conn (fst (zonas_query req)) (snd (zonas_query req)) of
             Inl err \<Rightarrow> Inl (HTTPException 500 err)
           | Inr rows \<Rightarrow>
               if rows = []
               then Inr (JObj
                 [(''mensaje'', JStr (''No se encontraron datos para la zona '' @ quote
                                      @ str_optional (nombre_zona req) @ quote)),
                  (''data'', JRows [])])
               else Inr (JObj
                 [(''count'', JInt (int (length rows))),
                  (''tipo_busqueda'', JStr (if truthy (nombre_zona req)
                                            then ''Espec'' @ i_acute @ ''fica''
                                            else ''Top Mercado'')),
                  (''data'', JRows rows)]),
           [Connect, Execute (fst (zonas_query req)) (snd (zonas_query req))]))"
  by (cases "zonas_query req")
     (auto simp add: consultar_stats_zonas_def split: option.splits sum.splits)

lemma zonas_query_eq:
  "zonas_query req =
     (base_zonas @ (if truthy (nombre_zona req) then '' WHERE zona ILIKE %s'' else [])
        @ '' ORDER BY num_ventas DESC LIMIT %s'',
      (if truthy (nombre_zona req) then [PStr (''%'' @ the_str (nombre_zona req) @ ''%'')] else [])
        @ [PInt (zona_stats_request.limit req)])"
  by (simp add: zonas_query_def)

lemma performance_caida:
  "perf_connect conn = Some err \<Longrightarrow>
   obtener_performance float_de menos conn req email =
     (Inl (HTTPException 500 (str_http (HTTPException 500 conexion_performance))), [Connect])"
  by (simp add: obtener_performance_def)




lemma palabras_propiedad:
  "palabras propiedad_query
     = cabecera_busqueda @ [''ORDER'', ''BY'', ''score'', ''DESC'', ''LIMIT'', ''3;'']"
  by (simp add: palabras_def propiedad_query_def newline_def es_blanco_def cabecera_busqueda_def)

lemma palabras_propiedad_sse:
  "palabras propiedad_query_sse
     = cabecera_busqueda @ [''ORDER'', ''BY'', ''score'', ''DESC'', ''LIMIT'', ''3;'']"
  by (simp add: palabras_def propiedad_query_sse_def newline_def es_blanco_def
        cabecera_busqueda_def)

lemma leer_limite_3: "leer_limite ''3;'' = Some 3"
  by (simp add: leer_limite_def)

lemma ejecutar_ordenado:
  assumes "palabras q = cabecera_busqueda @ [''ORDER'', ''BY'', ''score'', ''DESC'', ''LIMIT'', ''3;'']"
  shows "ejecutar_busqueda sim trgm view q [PStr t, PStr k, PStr t]
           = Inr (select_propiedad sim trgm view t k)"
    and "ejecutar_busqueda sim trgm view q [PStr t, PNone, PStr t] = Inr []"
  by (simp_all add: ejecutar_busqueda_def assms select_propiedad_def leer_limite_3 eq_commute)

lemmas ejecutar_propiedad = ejecutar_ordenado [OF palabras_propiedad]
lemmas ejecutar_propiedad_sse = ejecutar_ordenado [OF palabras_propiedad_sse]

lemma select_propiedad_length: "length (select_propiedad sim trgm view t cif) \<le> 3"
  by (simp add: select_propiedad_def)

lemma select_propiedad_sorted:
  "sorted_wrt (\<lambda>a b. score b \<le> score a) (select_propiedad sim trgm view t cif)"
proof -
  let ?xs = "map (\<lambda>v. con_score (sim (emisor_direccion_calle v) t) v)
               (filter (\<lambda>v. emisor_cif v = cif \<and> trgm (emisor_direccion_calle v) t) view)"
  have "sorted (map score (sort_key score ?xs))"
    by (rule sorted_sort_key)
  then have "sorted_wrt (\<lambda>a b. score a \<le> score b) (sort_key score ?xs)"
    by (simp add: sorted_map)
  then have "sorted_wrt (\<lambda>a b. score b \<le> score a) (rev (sort_key score ?xs))"
    by (simp add: sorted_wrt_rev)
  then show ?thesis
    unfolding select_propiedad_def by (rule sorted_wrt_take)
qed

lemma select_propiedad_set:
  "set (select_propiedad sim trgm view t cif)
     \<subseteq> (\<lambda>v. con_score (sim (emisor_direccion_calle v) t) v)
          ` {v \<in> set view. emisor_cif v = cif \<and> trgm (emisor_direccion_calle v) t}"
proof -
  have "set (select_propiedad sim trgm view t cif)
          \<subseteq> set (rev (sort_key score (map (\<lambda>v. con_score (sim (emisor_direccion_calle v) t) v)
               (filter (\<lambda>v. emisor_cif v = cif \<and> trgm (emisor_direccion_calle v) t) view))))"
    unfolding select_propiedad_def by (rule set_take_subset)
  then show ?thesis by auto
qed

lemma select_propiedad_empty:
  "(select_propiedad sim trgm view t cif = [])
     = (\<forall>v \<in> set view. emisor_cif v = cif \<longrightarrow> \<not> trgm (emisor_direccion_calle v) t)"
proof -
  let ?xs = "map (\<lambda>v. con_score (sim (emisor_direccion_calle v) t) v)
               (filter (\<lambda>v. emisor_cif v = cif \<and> trgm (emisor_direccion_calle v) t) view)"
  have "(select_propiedad sim trgm view t cif = []) = (length (sort_key score ?xs) = 0)"
    unfolding select_propiedad_def by (simp only: take_eq_Nil rev_is_Nil_conv length_0_conv) simp
  also have "\<dots> = (filter (\<lambda>v. emisor_cif v = cif \<and> trgm (emisor_direccion_calle v) t) view = [])"
    by simp
  also have "\<dots> = (\<forall>v \<in> set view. emisor_cif v = cif \<longrightarrow> \<not> trgm (emisor_direccion_calle v) t)"
    by (auto simp add: filter_empty_conv)
  finally show ?thesis .
qed

lemma placeholders_propiedad:
  "list_all2 ends_with (placeholders propiedad_query)
     [''similarity(emisor_direccion_calle, '', ''WHERE emisor_cif = '',
      ''AND emisor_direccion_calle %% '']"
  "list_all2 ends_with (placeholders propiedad_query_sse)
     [''similarity(emisor_direccion_calle, '', ''WHERE emisor_cif = '',
      ''AND emisor_direccion_calle %% '']"
  by (simp_all add: placeholders_def propiedad_query_def propiedad_query_sse_def newline_def
        ends_with_def)

lemma acumulado_con_filas:
  "total_ventas r = Some v \<Longrightarrow>
     (acumulado float_de menos (Some r) :: 'r json) =
       JObj
         [(''periodo'', JStr historico),
          (''tipo'', JStr ''Acumulado''),
          (''data'', JObj
             [(''ventas'', JInt v),
              (''facturado'', JFloat (float_or_zero float_de (total_facturado r))),
              (''cobrado'', JFloat (float_or_zero float_de (total_cobrado r))),
              (''pendiente_cobro'',
               JFloat (menos (float_or_zero float_de (total_facturado r))
                         (float_or_zero float_de (total_cobrado r))))])]"
  by (simp add: acumulado_def Let_def)


lemma sin_filas_agente:
  "(\<not> rechazado e fi ff \<and> connect conn = None \<longrightarrow>
      (execute conn (fst (facturas_query base_agent cif e fi ff n)) (argumentos cif e fi ff n) = Inr []
         \<longrightarrow> fst (consultar_mis_facturas py_str cif conn e fi ff n)
               = ''No se encontraron facturas con esos criterios.'')
      \<and> (\<forall>rows. rows \<noteq> []
            \<and> execute conn (fst (facturas_query base_agent cif e fi ff n)) (argumentos cif e fi ff n)
                 = Inr rows
         \<longrightarrow> fst (consultar_mis_facturas py_str cif conn e fi ff n)
               = ''Encontr'' @ e_acute @ '' '' @ str_nat (length rows) @ '' factura(s)''
                   @ eco e fi ff @ '':'' @ newline @ newline
                   @ concat (map (factura_linea py_str) rows)))
   \<and> (rechazado e fi ff \<or> connect conn \<noteq> None
        \<or> isl (execute conn (fst (facturas_query base_agent cif e fi ff n)) (argumentos cif e fi ff n))
      \<longrightarrow> es_error (fst (consultar_mis_facturas py_str cif conn e fi ff n)))"
proof (cases "rechazado e fi ff")
  case True
  then show ?thesis
    using agent_error [of e fi ff conn cif n py_str] by simp
next
  case False
  then show ?thesis
    using agent_error [of e fi ff conn cif n py_str]
    by (auto simp add: agent_aceptado resumen_eq sin_facturas_def)
qed

lemma sin_filas_buscar:
  "(connect pconn = None \<longrightarrow>
      (execute pconn propiedad_query [PStr q, opt_param cif, PStr q] = Inr []
         \<longrightarrow> fst (buscar_factura_por_propiedad py_str pct cif pconn q)
               = ''No encontr'' @ e_acute @ '' ninguna factura relacionada con la direcci''
                   @ o_acute @ ''n '' @ quote @ q @ quote @ ''.'')
      \<and> (\<forall>rows. rows \<noteq> []
            \<and> execute pconn propiedad_query [PStr q, opt_param cif, PStr q] = Inr rows
         \<longrightarrow> fst (buscar_factura_por_propiedad py_str pct cif pconn q)
               = ''Resultados para '' @ quote @ q @ quote @ '':'' @ newline
                   @ concat (map (propiedad_linea py_str pct) rows)))
   \<and> (connect pconn \<noteq> None
        \<or> isl (execute pconn propiedad_query [PStr q, opt_param cif, PStr q])
      \<longrightarrow> es_error (fst (buscar_factura_por_propiedad py_str pct cif pconn q)))"
  by (auto simp add: buscar_eq sin_propiedad_def es_error_def isl_def
        split: option.splits sum.splits)

lemma sin_filas_sse:
  "(\<not> (truthy e \<and> the_str e \<notin> set [''PENDIENTE'', ''PAGADA'']) \<and> connect sconn = None
        \<and> fst (resolve_cif_from_email email sconn) = Inr k \<longrightarrow>
      (execute sconn (fst (facturas_query_sse base_http k e fi n))
         (snd (facturas_query_sse base_http k e fi n)) = Inr []
         \<longrightarrow> fst (consultar_mis_facturas_sse str_rows sconn email e fi n)
               = ''No se encontraron facturas.'')
      \<and> (\<forall>rows. rows \<noteq> []
            \<and> execute sconn (fst (facturas_query_sse base_http k e fi n))
                 (snd (facturas_query_sse base_http k e fi n)) = Inr rows
         \<longrightarrow> fst (consultar_mis_facturas_sse str_rows sconn email e fi n) = str_rows rows)
      \<and> (isl (execute sconn (fst (facturas_query_sse base_http k e fi n))
                 (snd (facturas_query_sse base_http k e fi n)))
         \<longrightarrow> es_error (fst (consultar_mis_facturas_sse str_rows sconn email e fi n))))
   \<and> ((truthy e \<and> the_str e \<notin> set [''PENDIENTE'', ''PAGADA'']) \<or> connect sconn \<noteq> None
        \<or> isl (fst (resolve_cif_from_email email sconn))
      \<longrightarrow> es_error (fst (consultar_mis_facturas_sse str_rows sconn email e fi n)))"
proof (cases "truthy e \<and> the_str e \<notin> set [''PENDIENTE'', ''PAGADA'']")
  case True
  then show ?thesis
    by (simp add: sse_estado es_error_def)
next
  case False
  then show ?thesis
    by (auto simp add: sse_consultar_eq es_error_def isl_def split: option.splits sum.splits)
qed

lemma sin_filas_sse_buscar:
  "(connect bconn = None \<and> fst (resolve_cif_from_email email bconn) = Inr k \<longrightarrow>
      (execute bconn propiedad_query_sse [PStr q, PStr k, PStr q] = Inr []
         \<longrightarrow> fst (buscar_factura_por_propiedad_sse str_rows' bconn email q)
               = ''No se encontr'' @ o_acute @ '' nada.'')
      \<and> (\<forall>rows. rows \<noteq> []
            \<and> execute bconn propiedad_query_sse [PStr q, PStr k, PStr q] = Inr rows
         \<longrightarrow> fst (buscar_factura_por_propiedad_sse str_rows' bconn email q) = str_rows' rows)
      \<and> (isl (execute bconn propiedad_query_sse [PStr q, PStr k, PStr q])
         \<longrightarrow> es_error (fst (buscar_factura_por_propiedad_sse str_rows' bconn email q))))
   \<and> (connect bconn \<noteq> None \<or> isl (fst (resolve_cif_from_email email bconn))
      \<longrightarrow> es_error (fst (buscar_factura_por_propiedad_sse str_rows' bconn email q)))"
  by (auto simp add: sse_buscar_eq es_error_def isl_def split: option.splits sum.splits)

lemma sin_filas_http:
  "(\<not> rechazado e fi ff \<and> connect hconn = None \<longrightarrow>
      (\<forall>rows. execute hconn (fst (facturas_query base_http cif e fi ff n)) (argumentos cif e fi ff n)
                 = Inr rows
         \<longrightarrow> fst (consultar_facturas hconn
                    \<lparr>estado = e, fecha_inicio = fi, fecha_fin = ff, limit = n\<rparr> cif)
               = Inr (JObj
                   [(''count'', JInt (int (length rows))),
                    (''data'', JRows rows),
                    (''filtros_aplicados'', JObj
                       [(''estado'', json_str e), (''fecha_inicio'', json_str fi),
                        (''fecha_fin'', json_str ff), (''limit'', JInt n),
                        (''agent_cif'', json_str cif)])])))
   \<and> (rechazado e fi ff \<or> connect hconn \<noteq> None
        \<or> isl (execute hconn (fst (facturas_query base_http cif e fi ff n)) (argumentos cif e fi ff n))
      \<longrightarrow> isl (fst (consultar_facturas hconn
                 \<lparr>estado = e, fecha_inicio = fi, fecha_fin = ff, limit = n\<rparr> cif)))"
proof (cases "rechazado e fi ff")
  case True
  then show ?thesis
    using http_error [of e fi ff hconn cif n] by simp
next
  case False
  then show ?thesis
    using http_error [of e fi ff hconn cif n]
    by (auto simp add: http_aceptado)
qed

lemma sin_filas_zonas:
  "(connect zconn = None \<longrightarrow>
      (execute zconn (fst (zonas_query zreq)) (snd (zonas_query zreq)) = Inr []
         \<longrightarrow> fst (consultar_stats_zonas zconn zreq)
               = Inr (JObj
                   [(''mensaje'', JStr (''No se encontraron datos para la zona '' @ quote
                                        @ str_optional (nombre_zona zreq) @ quote)),
                    (''data'', JRows [])]))
      \<and> (\<forall>rows. rows \<noteq> []
            \<and> execute zconn (fst (zonas_query zreq)) (snd (zonas_query zreq)) = Inr rows
         \<longrightarrow> fst (consultar_stats_zonas zconn zreq)
               = Inr (JObj
                   [(''count'', JInt (int (length rows))),
                    (''tipo_busqueda'', JStr (if truthy (nombre_zona zreq)
                                              then ''Espec'' @ i_acute @ ''fica''
                                              else ''Top Mercado'')),
                    (''data'', JRows rows)])))
   \<and> (connect zconn \<noteq> None
        \<or> isl (execute zconn (fst (zonas_query zreq)) (snd (zonas_query zreq)))
      \<longrightarrow> isl (fst (consultar_stats_zonas zconn zreq)))"
  by (auto simp add: zonas_eq isl_def split: option.splits sum.splits)

lemma select_ejemplo:
  "select_propiedad sim_ejemplo trgm_ejemplo vista_ejemplo ''Velazquez'' ''B12345678''
      = [con_score 0.625 (fila_vista ''B12345678'' ''F-006'' ''Paseo Velazquez''),
         con_score 0.5 (fila_vista ''B12345678'' ''F-005'' ''Avenida Velazquez 3''),
         con_score 0.4375 (fila_vista ''B12345678'' ''F-001'' velazquez)]"
  "select_propiedad sim_ejemplo trgm_ejemplo vista_ejemplo ''Velazquez'' ''B87654321''
      = [con_score 0.625 (fila_vista ''B87654321'' ''F-004'' ''Paseo Velazquez'')]"
  "select_propiedad sim_ejemplo trgm_ejemplo vista_ejemplo ''Velazquez'' ''B00000000'' = []"
  by (simp_all add: select_propiedad_def vista_ejemplo_def fila_vista_def sim_ejemplo_def
        trgm_ejemplo_def velazquez_def a_acute_def con_score_def)

lemma resolve_vista:
  "fst (resolve_cif_from_email ''LUIS@inmo.es'' sse_vista) = Inr ''B87654321''"
  "fst (resolve_cif_from_email ''ana@inmo.es'' sse_vista) = Inr ''B12345678''"
  by (simp_all add: resolve_cif_from_email_def sse_vista_def ascii_lower_def lower_char_def)

lemma sse_vista_simps:
  "connect sse_vista = None"
  "execute sse_vista = ejecutar_busqueda sim_ejemplo trgm_ejemplo vista_ejemplo"
  by (simp_all add: sse_vista_def)

text \<open>
  C1. The invoice statement's arguments are the agent's key, then the status, the start
  date and the end date, each one only when it is present, then the limit: their number
  is 1 plus the number of filters present plus 1. The text before the i-th placeholder
  of the statement ends with the column of the i-th argument, and a request that passes
  the validation executes exactly this statement with these arguments.
\<close>

theorem facturas_query_argumentos:
  "snd (facturas_query base cif e fi ff n) = argumentos cif e fi ff n
   \<and> length (argumentos cif e fi ff n) = 1 + length (filter truthy [e, fi, ff]) + 1
   \<and> list_all2 ends_with (placeholders (fst (facturas_query base_agent cif e fi ff n)))
        (columnas e fi ff)
   \<and> list_all2 ends_with (placeholders (fst (facturas_query base_http cif e fi ff n)))
        (columnas e fi ff)
   \<and> (\<not> rechazado e fi ff \<and> connect conn = None \<longrightarrow>
        snd (consultar_mis_facturas py_str cif conn e fi ff n) =
          [Connect, Execute (fst (facturas_query base_agent cif e fi ff n)) (argumentos cif e fi ff n)])
   \<and> (\<not> rechazado e fi ff \<and> connect conn' = None \<longrightarrow>
        snd (consultar_facturas conn' \<lparr>estado = e, fecha_inicio = fi, fecha_fin = ff, limit = n\<rparr> cif) =
          [Connect, Execute (fst (facturas_query base_http cif e fi ff n)) (argumentos cif e fi ff n)])"
  by (simp add: facturas_query_snd length_argumentos placeholders_agent placeholders_http
        agent_aceptado http_aceptado del: length_filter_conv_card filter.simps)

theorem facturas_query_argumentos_witness:
  "\<not> rechazado (Some ''PAGADA'') (Some ''2024-11-01'') (Some ''2024-11-30'')
   \<and> connect db_ejemplo = None
   \<and> snd (facturas_query base_http (Some ''B12345678'') (Some ''PAGADA'') (Some ''2024-11-01'')
             (Some ''2024-11-30'') 5)
       = [PStr ''B12345678'', PStr ''PAGADA'', PStr ''2024-11-01'', PStr ''2024-11-30'', PInt 5]
   \<and> snd (consultar_facturas db_ejemplo
             \<lparr>estado = Some ''PAGADA'', fecha_inicio = Some ''2024-11-01'',
              fecha_fin = Some ''2024-11-30'', limit = 5\<rparr> (Some ''B12345678''))
       = [Connect,
          Execute (fst (facturas_query base_http (Some ''B12345678'') (Some ''PAGADA'')
                          (Some ''2024-11-01'') (Some ''2024-11-30'') 5))
            [PStr ''B12345678'', PStr ''PAGADA'', PStr ''2024-11-01'', PStr ''2024-11-30'', PInt 5]]"
  using facturas_query_argumentos [of base_http "Some ''B12345678''" "Some ''PAGADA''"
      "Some ''2024-11-01''" "Some ''2024-11-30''" 5 db_ejemplo id db_ejemplo]
    aceptado_ejemplo
  by (simp add: db_ejemplo_def argumentos_def truthy_def opt_param_def)

text \<open>
  C3. When the status is present (not empty) and is neither PENDIENTE nor PAGADA, the
  three invoice operations answer with the invalid-status error, a 400 on the HTTP
  server and an error text on the tool servers, and have asked nothing of the database.
  When the status is PENDIENTE, PAGADA or absent, none of them answers with that error:
  the first two go on to the later checks and the gatekeeper server goes on to connect.
\<close>

theorem estado_invalido:
  "(truthy e \<and> the_str e \<notin> set [''PENDIENTE'', ''PAGADA''] \<longrightarrow>
      consultar_mis_facturas py_str cif conn e fi ff n = (''Error: '' @ msg_estado, [])
      \<and> consultar_facturas conn' \<lparr>estado = e, fecha_inicio = fi, fecha_fin = ff, limit = n\<rparr> cif
          = (Inl (HTTPException 400 msg_estado), [])
      \<and> consultar_mis_facturas_sse str_rows conn'' email e fi n
          = (''Error: Estado inv'' @ a_acute @ ''lido.'', []))
   \<and> (\<not> (truthy e \<and> the_str e \<notin> set [''PENDIENTE'', ''PAGADA'']) \<longrightarrow>
      fst (consultar_mis_facturas py_str cif conn e fi ff n) \<noteq> ''Error: '' @ msg_estado
      \<and> fst (consultar_facturas conn' \<lparr>estado = e, fecha_inicio = fi, fecha_fin = ff, limit = n\<rparr> cif)
          \<noteq> Inl (HTTPException 400 msg_estado)
      \<and> snd (consultar_mis_facturas_sse str_rows conn'' email e fi n) \<noteq> [])"
proof (intro conjI impI)
  assume bad: "truthy e \<and> the_str e \<notin> set [''PENDIENTE'', ''PAGADA'']"
  show "consultar_mis_facturas py_str cif conn e fi ff n = (''Error: '' @ msg_estado, [])"
    using bad by (simp add: consultar_mis_facturas_def)
  show "consultar_facturas conn' \<lparr>estado = e, fecha_inicio = fi, fecha_fin = ff, limit = n\<rparr> cif
          = (Inl (HTTPException 400 msg_estado), [])"
    using bad by (simp add: consultar_facturas_def)
  show "consultar_mis_facturas_sse str_rows conn'' email e fi n
          = (''Error: Estado inv'' @ a_acute @ ''lido.'', [])"
    using bad by (rule sse_estado)
next
  assume ok: "\<not> (truthy e \<and> the_str e \<notin> set [''PENDIENTE'', ''PAGADA''])"
  show "fst (consultar_mis_facturas py_str cif conn e fi ff n) \<noteq> ''Error: '' @ msg_estado"
    using ok by (rule agent_estado_ok)
  show "fst (consultar_facturas conn' \<lparr>estado = e, fecha_inicio = fi, fecha_fin = ff, limit = n\<rparr> cif)
          \<noteq> Inl (HTTPException 400 msg_estado)"
    using ok by (rule http_estado_ok)
  show "snd (consultar_mis_facturas_sse str_rows conn'' email e fi n) \<noteq> []"
    using ok by (rule sse_estado_ok)
qed

theorem estado_invalido_witness:
  "(truthy (Some ''ANULADA'') \<and> the_str (Some ''ANULADA'') \<notin> set [''PENDIENTE'', ''PAGADA''])
   \<and> consultar_facturas db_ejemplo
        \<lparr>estado = Some ''ANULADA'', fecha_inicio = None, fecha_fin = None, limit = 5\<rparr> (Some ''B12345678'')
       = (Inl (HTTPException 400 msg_estado), [])
   \<and> consultar_mis_facturas id (Some ''B12345678'') db_ejemplo (Some ''ANULADA'') None None 5
       = (''Error: '' @ msg_estado, [])
   \<and> consultar_mis_facturas_sse numeros sse_ejemplo ''ana@inmo.es'' (Some ''ANULADA'') None 5
       = (''Error: Estado inv'' @ a_acute @ ''lido.'', [])
   \<and> \<not> (truthy (Some ''PAGADA'') \<and> the_str (Some ''PAGADA'') \<notin> set [''PENDIENTE'', ''PAGADA''])
   \<and> \<not> (truthy None \<and> the_str None \<notin> set [''PENDIENTE'', ''PAGADA''])
   \<and> fst (consultar_mis_facturas id (Some ''B12345678'') db_ejemplo (Some ''PAGADA'') None None 5)
       \<noteq> ''Error: '' @ msg_estado
   \<and> fst (consultar_mis_facturas id (Some ''B12345678'') db_ejemplo None None None 5)
       \<noteq> ''Error: '' @ msg_estado"
proof -
  have bad: "truthy (Some ''ANULADA'') \<and> the_str (Some ''ANULADA'') \<notin> set [''PENDIENTE'', ''PAGADA'']"
    by (simp add: truthy_def the_str_def)
  have ok1: "\<not> (truthy (Some ''PAGADA'') \<and> the_str (Some ''PAGADA'') \<notin> set [''PENDIENTE'', ''PAGADA''])"
    by (simp add: truthy_def the_str_def)
  have ok2: "\<not> (truthy None \<and> the_str None \<notin> set [''PENDIENTE'', ''PAGADA''])"
    by (simp add: truthy_def the_str_def)
  note a = estado_invalido [where e = "Some ''ANULADA''" and py_str = id
      and cif = "Some ''B12345678''" and conn = db_ejemplo and fi = None and ff = None and n = 5
      and conn' = db_ejemplo and str_rows = numeros and conn'' = sse_ejemplo
      and email = "''ana@inmo.es''", THEN conjunct1, rule_format, OF bad]
  note b = estado_invalido [where e = "Some ''PAGADA''" and py_str = id
      and cif = "Some ''B12345678''" and conn = db_ejemplo and fi = None and ff = None and n = 5
      and conn' = db_ejemplo and str_rows = numeros and conn'' = sse_ejemplo
      and email = "''ana@inmo.es''", THEN conjunct2, rule_format, OF ok1]
  note c = estado_invalido [where e = None and py_str = id
      and cif = "Some ''B12345678''" and conn = db_ejemplo and fi = None and ff = None and n = 5
      and conn' = db_ejemplo and str_rows = numeros and conn'' = sse_ejemplo
      and email = "''ana@inmo.es''", THEN conjunct2, rule_format, OF ok2]
  show ?thesis
    using bad ok1 ok2 a b c by blast
qed

text \<open>
  C10. A request that fails the status check, a date-format check or the range check is
  answered with its validation error and nothing has been asked of the database: no
  connection, no statement. The answer is the same whatever the database is.
\<close>

theorem validacion_sin_efectos:
  "rechazado e fi ff \<Longrightarrow>
     snd (consultar_mis_facturas py_str cif conn e fi ff n) = []
     \<and> fst (consultar_mis_facturas py_str cif conn e fi ff n)
          \<in> {''Error: '' @ msg_estado, ''Error: '' @ msg_fecha_inicio,
              ''Error: '' @ msg_fecha_fin, ''Error: '' @ msg_rango}
     \<and> consultar_mis_facturas py_str cif conn e fi ff n
          = consultar_mis_facturas py_str cif other e fi ff n
     \<and> snd (consultar_facturas conn' \<lparr>estado = e, fecha_inicio = fi, fecha_fin = ff, limit = n\<rparr> cif) = []
     \<and> fst (consultar_facturas conn' \<lparr>estado = e, fecha_inicio = fi, fecha_fin = ff, limit = n\<rparr> cif)
          \<in> {Inl (HTTPException 400 msg_estado), Inl (HTTPException 400 msg_fecha_inicio),
              Inl (HTTPException 400 msg_fecha_fin), Inl (HTTPException 400 msg_rango)}
     \<and> consultar_facturas conn' \<lparr>estado = e, fecha_inicio = fi, fecha_fin = ff, limit = n\<rparr> cif
          = consultar_facturas other' \<lparr>estado = e, fecha_inicio = fi, fecha_fin = ff, limit = n\<rparr> cif"
proof (intro conjI)
  assume r: "rechazado e fi ff"
  show "snd (consultar_mis_facturas py_str cif conn e fi ff n) = []"
    using r by (rule agent_rechazado(1))
  show "fst (consultar_mis_facturas py_str cif conn e fi ff n)
          \<in> {''Error: '' @ msg_estado, ''Error: '' @ msg_fecha_inicio,
              ''Error: '' @ msg_fecha_fin, ''Error: '' @ msg_rango}"
    using r by (rule agent_rechazado(2))
  show "consultar_mis_facturas py_str cif conn e fi ff n
          = consultar_mis_facturas py_str cif other e fi ff n"
    using r by (auto simp add: consultar_mis_facturas_def rechazado_def)
  show "snd (consultar_facturas conn' \<lparr>estado = e, fecha_inicio = fi, fecha_fin = ff, limit = n\<rparr> cif) = []"
    using r by (rule http_rechazado(1))
  show "fst (consultar_facturas conn' \<lparr>estado = e, fecha_inicio = fi, fecha_fin = ff, limit = n\<rparr> cif)
          \<in> {Inl (HTTPException 400 msg_estado), Inl (HTTPException 400 msg_fecha_inicio),
              Inl (HTTPException 400 msg_fecha_fin), Inl (HTTPException 400 msg_rango)}"
    using r by (rule http_rechazado(2))
  show "consultar_facturas conn' \<lparr>estado = e, fecha_inicio = fi, fecha_fin = ff, limit = n\<rparr> cif
          = consultar_facturas other' \<lparr>estado = e, fecha_inicio = fi, fecha_fin = ff, limit = n\<rparr> cif"
    using r by (auto simp add: consultar_facturas_def rechazado_def)
qed

theorem validacion_sin_efectos_witness:
  "rechazado None (Some ''2024-11-30'') (Some ''2024-11-01'')
   \<and> rechazado None (Some ''01/11/2024'') None
   \<and> consultar_facturas db_ejemplo
        \<lparr>estado = None, fecha_inicio = Some ''2024-11-30'', fecha_fin = Some ''2024-11-01'', limit = 5\<rparr>
        (Some ''B12345678'')
       = (Inl (HTTPException 400 msg_rango), [])
   \<and> consultar_mis_facturas id (Some ''B12345678'') db_ejemplo None (Some ''01/11/2024'') None 5
       = (''Error: '' @ msg_fecha_inicio, [])"
proof -
  have v: "validar_fecha ''2024-11-30''" "validar_fecha ''2024-11-01''"
       "\<not> validar_fecha ''01/11/2024''"
    by (simp_all add: fecha_defs)
  have r1: "rechazado None (Some ''2024-11-30'') (Some ''2024-11-01'')"
    by (simp add: rechazado_def truthy_def the_str_def v)
  have r2: "rechazado None (Some ''01/11/2024'') None"
    by (simp add: rechazado_def truthy_def the_str_def v)
  show ?thesis
    using validacion_sin_efectos [OF r1, of id "Some ''B12345678''" db_ejemplo 5 db_ejemplo db_ejemplo db_ejemplo]
      validacion_sin_efectos [OF r2, of id "Some ''B12345678''" db_ejemplo 5 db_ejemplo db_ejemplo db_ejemplo]
      r1 r2
    by (simp add: consultar_facturas_def consultar_mis_facturas_def truthy_def the_str_def v)
qed

text \<open>
  C8. When the statement returns no rows, every operation answers with its explicit
  "nothing found" result, which differs both from what it answers when rows come back
  and from what it answers on a failure. The tools answer with a sentence of their own:
  \<open>No se encontraron facturas con esos criterios.\<close>, the sentence that nothing was
  found for the address, \<open>No se encontraron facturas.\<close> and \<open>No se encontr\<acute>o nada.\<close>;
  with rows they answer with the summary, the list of results or the text of the rows,
  and every failure of theirs (validation, connection, gatekeeper, execution) is a text
  that begins with \<open>Error\<close>. The HTTP invoice endpoint answers with the body whose
  count is the number of rows, 0 with empty data when there are none, and the zone
  statistics with a message and empty data, or with count and rows; the failures of
  both are exceptions with a status.
\<close>

theorem sin_resultados:
  "(\<not> rechazado e fi ff \<and> connect conn = None \<longrightarrow>
      (execute conn (fst (facturas_query base_agent cif e fi ff n)) (argumentos cif e fi ff n) = Inr []
         \<longrightarrow> fst (consultar_mis_facturas py_str cif conn e fi ff n)
               = ''No se encontraron facturas con esos criterios.'')
      \<and> (\<forall>rows. rows \<noteq> []
            \<and> execute conn (fst (facturas_query base_agent cif e fi ff n)) (argumentos cif e fi ff n)
                 = Inr rows
         \<longrightarrow> fst (consultar_mis_facturas py_str cif conn e fi ff n)
               = ''Encontr'' @ e_acute @ '' '' @ str_nat (length rows) @ '' factura(s)''
                   @ eco e fi ff @ '':'' @ newline @ newline
                   @ concat (map (factura_linea py_str) rows)))
   \<and> (rechazado e fi ff \<or> connect conn \<noteq> None
        \<or> isl (execute conn (fst (facturas_query base_agent cif e fi ff n)) (argumentos cif e fi ff n))
      \<longrightarrow> es_error (fst (consultar_mis_facturas py_str cif conn e fi ff n)))
   \<and> (connect pconn = None \<longrightarrow>
      (execute pconn propiedad_query [PStr q, opt_param cif, PStr q] = Inr []
         \<longrightarrow> fst (buscar_factura_por_propiedad py_str pct cif pconn q)
               = ''No encontr'' @ e_acute @ '' ninguna factura relacionada con la direcci''
                   @ o_acute @ ''n '' @ quote @ q @ quote @ ''.'')
      \<and> (\<forall>rows. rows \<noteq> []
            \<and> execute pconn propiedad_query [PStr q, opt_param cif, PStr q] = Inr rows
         \<longrightarrow> fst (buscar_factura_por_propiedad py_str pct cif pconn q)
               = ''Resultados para '' @ quote @ q @ quote @ '':'' @ newline
                   @ concat (map (propiedad_linea py_str pct) rows)))
   \<and> (connect pconn \<noteq> None
        \<or> isl (execute pconn propiedad_query [PStr q, opt_param cif, PStr q])
      \<longrightarrow> es_error (fst (buscar_factura_por_propiedad py_str pct cif pconn q)))
   \<and> (\<not> (truthy e \<and> the_str e \<notin> set [''PENDIENTE'', ''PAGADA'']) \<and> connect sconn = None
        \<and> fst (resolve_cif_from_email email sconn) = Inr k \<longrightarrow>
      (execute sconn (fst (facturas_query_sse base_http k e fi n))
         (snd (facturas_query_sse base_http k e fi n)) = Inr []
         \<longrightarrow> fst (consultar_mis_facturas_sse str_rows sconn email e fi n)
               = ''No se encontraron facturas.'')
      \<and> (\<forall>rows. rows \<noteq> []
            \<and> execute sconn (fst (facturas_query_sse base_http k e fi n))
                 (snd (facturas_query_sse base_http k e fi n)) = Inr rows
         \<longrightarrow> fst (consultar_mis_facturas_sse str_rows sconn email e fi n) = str_rows rows)
      \<and> (isl (execute sconn (fst (facturas_query_sse base_http k e fi n))
                 (snd (facturas_query_sse base_http k e fi n)))
         \<longrightarrow> es_error (fst (consultar_mis_facturas_sse str_rows sconn email e fi n))))
   \<and> ((truthy e \<and> the_str e \<notin> set [''PENDIENTE'', ''PAGADA'']) \<or> connect sconn \<noteq> None
        \<or> isl (fst (resolve_cif_from_email email sconn))
      \<longrightarrow> es_error (fst (consultar_mis_facturas_sse str_rows sconn email e fi n)))
   \<and> (connect bconn = None \<and> fst (resolve_cif_from_email email bconn) = Inr k \<longrightarrow>
      (execute bconn propiedad_query_sse [PStr q, PStr k, PStr q] = Inr []
         \<longrightarrow> fst (buscar_factura_por_propiedad_sse str_rows' bconn email q)
               = ''No se encontr'' @ o_acute @ '' nada.'')
      \<and> (\<forall>rows. rows \<noteq> []
            \<and> execute bconn propiedad_query_sse [PStr q, PStr k, PStr q] = Inr rows
         \<longrightarrow> fst (buscar_factura_por_propiedad_sse str_rows' bconn email q) = str_rows' rows)
      \<and> (isl (execute bconn propiedad_query_sse [PStr q, PStr k, PStr q])
         \<longrightarrow> es_error (fst (buscar_factura_por_propiedad_sse str_rows' bconn email q))))
   \<and> (connect bconn \<noteq> None \<or> isl (fst (resolve_cif_from_email email bconn))
      \<longrightarrow> es_error (fst (buscar_factura_por_propiedad_sse str_rows' bconn email q)))
   \<and> (\<not> rechazado e fi ff \<and> connect hconn = None \<longrightarrow>
      (\<forall>rows. execute hconn (fst (facturas_query base_http cif e fi ff n)) (argumentos cif e fi ff n)
                 = Inr rows
         \<longrightarrow> fst (consultar_facturas hconn
                    \<lparr>estado = e, fecha_inicio = fi, fecha_fin = ff, limit = n\<rparr> cif)
               = Inr (JObj
                   [(''count'', JInt (int (length rows))),
                    (''data'', JRows rows),
                    (''filtros_aplicados'', JObj
                       [(''estado'', json_str e), (''fecha_inicio'', json_str fi),
                        (''fecha_fin'', json_str ff), (''limit'', JInt n),
                        (''agent_cif'', json_str cif)])])))
   \<and> (rechazado e fi ff \<or> connect hconn \<noteq> None
        \<or> isl (execute hconn (fst (facturas_query base_http cif e fi ff n)) (argumentos cif e fi ff n))
      \<longrightarrow> isl (fst (consultar_facturas hconn
                 \<lparr>estado = e, fecha_inicio = fi, fecha_fin = ff, limit = n\<rparr> cif)))
   \<and> (connect zconn = None \<longrightarrow>
      (execute zconn (fst (zonas_query zreq)) (snd (zonas_query zreq)) = Inr []
         \<longrightarrow> fst (consultar_stats_zonas zconn zreq)
               = Inr (JObj
                   [(''mensaje'', JStr (''No se encontraron datos para la zona '' @ quote
                                        @ str_optional (nombre_zona zreq) @ quote)),
                    (''data'', JRows [])]))
      \<and> (\<forall>rows. rows \<noteq> []
            \<and> execute zconn (fst (zonas_query zreq)) (snd (zonas_query zreq)) = Inr rows
         \<longrightarrow> fst (consultar_stats_zonas zconn zreq)
               = Inr (JObj
                   [(''count'', JInt (int (length rows))),
                    (''tipo_busqueda'', JStr (if truthy (nombre_zona zreq)
                                              then ''Espec'' @ i_acute @ ''fica''
                                              else ''Top Mercado'')),
                    (''data'', JRows rows)])))
   \<and> (connect zconn \<noteq> None
        \<or> isl (execute zconn (fst (zonas_query zreq)) (snd (zonas_query zreq)))
      \<longrightarrow> isl (fst (consultar_stats_zonas zconn zreq)))"
  by (intro conjI sin_filas_agente [THEN conjunct1] sin_filas_agente [THEN conjunct2]
        sin_filas_buscar [THEN conjunct1] sin_filas_buscar [THEN conjunct2]
        sin_filas_sse [THEN conjunct1] sin_filas_sse [THEN conjunct2]
        sin_filas_sse_buscar [THEN conjunct1] sin_filas_sse_buscar [THEN conjunct2]
        sin_filas_http [THEN conjunct1] sin_filas_http [THEN conjunct2]
        sin_filas_zonas [THEN conjunct1] sin_filas_zonas [THEN conjunct2])

text \<open>
  C9. When the statement returns rows, the tool server's summary is the count of the
  rows, then the filters that were applied, then one line for each row in the order
  returned. The filters named are the status when it is present and the dates: both as
  \<open>periodo: from a to\<close>, the start alone as \<open>desde\<close>, the end alone as
  \<open>hasta\<close>; with no filter nothing is named. The limit is never named.
\<close>

theorem resumen_filtros:
  assumes "\<not> rechazado e fi ff"
    and "connect conn = None"
    and "execute conn (fst (facturas_query base_agent cif e fi ff n)) (argumentos cif e fi ff n)
           = Inr rows"
    and "rows \<noteq> []"
  shows "fst (consultar_mis_facturas py_str cif conn e fi ff n) =
           ''Encontr'' @ e_acute @ '' '' @ str_nat (length rows) @ '' factura(s)'' @ eco e fi ff
             @ '':'' @ newline @ newline @ concat (map (factura_linea py_str) rows)"
  using assms by (simp add: agent_aceptado resumen_eq)

theorem resumen_filtros_witness:
  "\<not> rechazado (Some ''PAGADA'') (Some ''2024-11-01'') (Some ''2024-11-30'')
   \<and> connect db_ejemplo = None
   \<and> execute db_ejemplo
        (fst (facturas_query base_agent (Some ''B12345678'') (Some ''PAGADA'') (Some ''2024-11-01'')
                (Some ''2024-11-30'') 5))
        (argumentos (Some ''B12345678'') (Some ''PAGADA'') (Some ''2024-11-01'') (Some ''2024-11-30'') 5)
       = Inr facturas_ejemplo
   \<and> facturas_ejemplo \<noteq> []
   \<and> fst (consultar_mis_facturas id (Some ''B12345678'') db_ejemplo (Some ''PAGADA'')
             (Some ''2024-11-01'') (Some ''2024-11-30'') 5)
       = ''Encontr'' @ e_acute
           @ '' 3 factura(s) (estado: PAGADA, periodo: 2024-11-01 a 2024-11-30):'' @ newline @ newline
           @ ''- Factura F-003 (PAGADA): 1500.00 EUR. Fecha: 2024-11-28'' @ newline
           @ ''- Factura F-002 (PAGADA): 980.50 EUR. Fecha: 2024-11-15'' @ newline
           @ ''- Factura F-001 (PAGADA): 2100.00 EUR. Fecha: 2024-11-02'' @ newline"
proof -
  have ex: "execute db_ejemplo
        (fst (facturas_query base_agent (Some ''B12345678'') (Some ''PAGADA'') (Some ''2024-11-01'')
                (Some ''2024-11-30'') 5))
        (argumentos (Some ''B12345678'') (Some ''PAGADA'') (Some ''2024-11-01'') (Some ''2024-11-30'') 5)
       = Inr facturas_ejemplo"
    by (simp add: db_ejemplo_def argumentos_def truthy_def opt_param_def)
  have c: "connect db_ejemplo = None"
    by (simp add: db_ejemplo_def)
  have ne: "facturas_ejemplo \<noteq> []"
    by (simp add: facturas_ejemplo_def)
  have len: "str_nat (length facturas_ejemplo) = ''3''"
    by (simp add: facturas_ejemplo_def str_nat.simps digit_char_def)
  show ?thesis
    using resumen_filtros [OF aceptado_ejemplo c ex ne, of id] aceptado_ejemplo c ex ne
    by (simp add: len eco_def truthy_def the_str_def)
       (simp add: facturas_ejemplo_def factura_linea_def)
qed

theorem sin_resultados_witness:
  "fst (consultar_mis_facturas id (Some ''B12345678'') (db_filas []) None None None 5)
     = ''No se encontraron facturas con esos criterios.''
   \<and> fst (consultar_mis_facturas id (Some ''B12345678'') (db_filas facturas_ejemplo) None None None 5)
     = ''Encontr'' @ e_acute @ '' 3 factura(s):'' @ newline @ newline
         @ ''- Factura F-003 (PAGADA): 1500.00 EUR. Fecha: 2024-11-28'' @ newline
         @ ''- Factura F-002 (PAGADA): 980.50 EUR. Fecha: 2024-11-15'' @ newline
         @ ''- Factura F-001 (PAGADA): 2100.00 EUR. Fecha: 2024-11-02'' @ newline
   \<and> es_error (fst (consultar_mis_facturas id (Some ''B12345678'') db_caida None None None 5))
   \<and> es_error (fst (consultar_mis_facturas id (Some ''B12345678'') (db_filas []) (Some ''ANULADA'')
                       None None 5))
   \<and> fst (buscar_factura_por_propiedad id por_cien_ejemplo (Some ''B12345678'') (db_filas [])
             ''Velazquez'')
     = ''No encontr'' @ e_acute @ '' ninguna factura relacionada con la direcci'' @ o_acute
         @ ''n '' @ quote @ ''Velazquez'' @ quote @ ''.''
   \<and> es_error (fst (buscar_factura_por_propiedad id por_cien_ejemplo (Some ''B12345678'') db_caida
                       ''Velazquez''))
   \<and> fst (consultar_mis_facturas_sse numeros sse_ejemplo ''LUIS@inmo.es'' None None 5)
     = ''No se encontraron facturas.''
   \<and> fst (consultar_mis_facturas_sse numeros sse_ejemplo ''ana@inmo.es'' None None 5)
     = ''[F-003, F-002, F-001]''
   \<and> es_error (fst (consultar_mis_facturas_sse numeros sse_caida ''ana@inmo.es'' None None 5))
   \<and> fst (buscar_factura_por_propiedad_sse numeros sse_ejemplo ''ana@inmo.es'' ''Velazquez'')
     = ''No se encontr'' @ o_acute @ '' nada.''
   \<and> es_error (fst (buscar_factura_por_propiedad_sse numeros sse_caida ''ana@inmo.es'' ''Velazquez''))
   \<and> fst (consultar_facturas (db_filas ([] :: string factura_row list))
             \<lparr>estado = None, fecha_inicio = None, fecha_fin = None, limit = 5\<rparr> (Some ''B12345678''))
     = Inr (JObj
         [(''count'', JInt 0),
          (''data'', JRows []),
          (''filtros_aplicados'', JObj
             [(''estado'', JNull), (''fecha_inicio'', JNull), (''fecha_fin'', JNull),
              (''limit'', JInt 5), (''agent_cif'', JStr ''B12345678'')])])
   \<and> fst (consultar_facturas (db_filas facturas_ejemplo)
             \<lparr>estado = None, fecha_inicio = None, fecha_fin = None, limit = 5\<rparr> (Some ''B12345678''))
     = Inr (JObj
         [(''count'', JInt 3),
          (''data'', JRows facturas_ejemplo),
          (''filtros_aplicados'', JObj
             [(''estado'', JNull), (''fecha_inicio'', JNull), (''fecha_fin'', JNull),
              (''limit'', JInt 5), (''agent_cif'', JStr ''B12345678'')])])
   \<and> isl (fst (consultar_facturas (db_caida :: string factura_row db)
                  \<lparr>estado = None, fecha_inicio = None, fecha_fin = None, limit = 5\<rparr>
                  (Some ''B12345678'')))
   \<and> fst (consultar_stats_zonas (db_filas ([] :: string factura_row list))
             \<lparr>nombre_zona = Some ''Ruzafa'', limit = 10\<rparr>)
     = Inr (JObj
         [(''mensaje'', JStr (''No se encontraron datos para la zona '' @ quote @ ''Ruzafa'' @ quote)),
          (''data'', JRows [])])
   \<and> fst (consultar_stats_zonas (db_filas facturas_ejemplo) \<lparr>nombre_zona = None, limit = 10\<rparr>)
     = Inr (JObj
         [(''count'', JInt 3), (''tipo_busqueda'', JStr ''Top Mercado''),
          (''data'', JRows facturas_ejemplo)])
   \<and> isl (fst (consultar_stats_zonas (db_caida :: string factura_row db)
                  \<lparr>nombre_zona = None, limit = 10\<rparr>))"
proof -
  have ok: "\<not> rechazado None None None"
    by (simp add: rechazado_def truthy_def)
  have bad: "rechazado (Some ''ANULADA'') None None"
    by (simp add: rechazado_def truthy_def the_str_def)
  have st: "\<not> (truthy None \<and> the_str None \<notin> set [''PENDIENTE'', ''PAGADA''])"
    by (simp add: truthy_def)
  have ne: "facturas_ejemplo \<noteq> []" "length facturas_ejemplo = 3"
    by (simp_all add: facturas_ejemplo_def)
  have res: "fst (resolve_cif_from_email ''LUIS@inmo.es'' sse_ejemplo) = Inr ''B87654321''"
      "fst (resolve_cif_from_email ''ana@inmo.es'' sse_ejemplo) = Inr ''B12345678''"
      "isl (fst (resolve_cif_from_email ''ana@inmo.es'' sse_caida))"
    by (simp_all add: resolve_cif_from_email_def sse_ejemplo_def sse_caida_def ascii_lower_def
          lower_char_def)
  have cs: "connect sse_ejemplo = None" "connect sse_caida = None"
    by (simp_all add: sse_ejemplo_def sse_caida_def)
  have ex: "execute sse_ejemplo (fst (facturas_query_sse base_http ''B87654321'' None None 5))
              (snd (facturas_query_sse base_http ''B87654321'' None None 5)) = Inr []"
      "execute sse_ejemplo (fst (facturas_query_sse base_http ''B12345678'' None None 5))
              (snd (facturas_query_sse base_http ''B12345678'' None None 5)) = Inr facturas_ejemplo"
      "execute sse_ejemplo propiedad_query_sse [PStr ''Velazquez'', PStr ''B12345678'', PStr ''Velazquez'']
         = Inr []"
    by (simp_all add: sse_ejemplo_def facturas_query_sse_def truthy_def)
  note vacio = sin_resultados [where e = None and fi = None and ff = None and n = 5
      and conn = "db_filas []" and cif = "Some ''B12345678''" and py_str = id
      and pconn = "db_filas []" and q = "''Velazquez''" and pct = por_cien_ejemplo
      and sconn = sse_ejemplo and email = "''LUIS@inmo.es''" and k = "''B87654321''"
      and str_rows = numeros and bconn = sse_caida and str_rows' = numeros
      and hconn = "db_filas ([] :: string factura_row list)"
      and zconn = "db_filas ([] :: string factura_row list)"
      and zreq = "\<lparr>nombre_zona = Some ''Ruzafa'', limit = 10\<rparr>"]
  note filas = sin_resultados [where e = None and fi = None and ff = None and n = 5
      and conn = "db_filas facturas_ejemplo" and cif = "Some ''B12345678''" and py_str = id
      and pconn = "db_caida" and q = "''Velazquez''" and pct = por_cien_ejemplo
      and sconn = sse_ejemplo and email = "''ana@inmo.es''" and k = "''B12345678''"
      and str_rows = numeros and bconn = sse_ejemplo and str_rows' = numeros
      and hconn = "db_filas facturas_ejemplo"
      and zconn = "db_filas facturas_ejemplo"
      and zreq = "\<lparr>nombre_zona = None, limit = 10\<rparr>"]
  note caida = sin_resultados [where e = None and fi = None and ff = None and n = 5
      and conn = "db_caida" and cif = "Some ''B12345678''" and py_str = id
      and pconn = "db_caida" and q = "''Velazquez''" and pct = por_cien_ejemplo
      and sconn = sse_caida and email = "''ana@inmo.es''" and k = "''B12345678''"
      and str_rows = numeros and bconn = sse_caida and str_rows' = numeros
      and hconn = "db_caida :: string factura_row db"
      and zconn = "db_caida :: string factura_row db"
      and zreq = "\<lparr>nombre_zona = None, limit = 10\<rparr>"]
  note mala = sin_resultados [where e = "Some ''ANULADA''" and fi = None and ff = None and n = 5
      and conn = "db_filas []" and cif = "Some ''B12345678''" and py_str = id
      and pconn = "db_caida" and q = "''Velazquez''" and pct = por_cien_ejemplo
      and sconn = sse_caida and email = "''ana@inmo.es''" and k = "''B12345678''"
      and str_rows = numeros and bconn = sse_caida and str_rows' = numeros
      and hconn = "db_caida :: string factura_row db"
      and zconn = "db_caida :: string factura_row db"
      and zreq = "\<lparr>nombre_zona = None, limit = 10\<rparr>"]
  have a1: "fst (consultar_mis_facturas id (Some ''B12345678'') (db_filas []) None None None 5)
     = ''No se encontraron facturas con esos criterios.''"
    using vacio ok by (simp add: db_filas_def)
  have a2: "fst (consultar_mis_facturas id (Some ''B12345678'') (db_filas facturas_ejemplo) None None None 5)
     = ''Encontr'' @ e_acute @ '' 3 factura(s):'' @ newline @ newline
         @ ''- Factura F-003 (PAGADA): 1500.00 EUR. Fecha: 2024-11-28'' @ newline
         @ ''- Factura F-002 (PAGADA): 980.50 EUR. Fecha: 2024-11-15'' @ newline
         @ ''- Factura F-001 (PAGADA): 2100.00 EUR. Fecha: 2024-11-02'' @ newline"
  proof -
    have "fst (consultar_mis_facturas id (Some ''B12345678'') (db_filas facturas_ejemplo) None None None 5)
      = ''Encontr'' @ e_acute @ '' '' @ str_nat (length facturas_ejemplo) @ '' factura(s)''
                   @ eco None None None @ '':'' @ newline @ newline
                   @ concat (map (factura_linea id) facturas_ejemplo)"
      using filas ok ne(1) by (simp add: db_filas_def)
    then show ?thesis
      by (simp add: ne(2) eco_def truthy_def str_nat.simps digit_char_def)
         (simp add: facturas_ejemplo_def factura_linea_def)
  qed
  have a3: "es_error (fst (consultar_mis_facturas id (Some ''B12345678'') db_caida None None None 5))"
    using caida by (simp add: db_caida_def)
  have a4: "es_error (fst (consultar_mis_facturas id (Some ''B12345678'') (db_filas []) (Some ''ANULADA'')
                       None None 5))"
    using mala bad by simp
  have b1: "fst (buscar_factura_por_propiedad id por_cien_ejemplo (Some ''B12345678'') (db_filas [])
             ''Velazquez'')
     = ''No encontr'' @ e_acute @ '' ninguna factura relacionada con la direcci'' @ o_acute
         @ ''n '' @ quote @ ''Velazquez'' @ quote @ ''.''"
    using vacio by (simp add: db_filas_def)
  have b2: "es_error (fst (buscar_factura_por_propiedad id por_cien_ejemplo (Some ''B12345678'') db_caida
                       ''Velazquez''))"
    using caida by (simp add: db_caida_def)
  have s1: "fst (consultar_mis_facturas_sse numeros sse_ejemplo ''LUIS@inmo.es'' None None 5)
     = ''No se encontraron facturas.''"
    using vacio st cs res ex by simp
  have s2: "fst (consultar_mis_facturas_sse numeros sse_ejemplo ''ana@inmo.es'' None None 5)
     = ''[F-003, F-002, F-001]''"
  proof -
    have "fst (consultar_mis_facturas_sse numeros sse_ejemplo ''ana@inmo.es'' None None 5)
            = numeros facturas_ejemplo"
      using filas st cs res ex ne(1) by simp
    then show ?thesis
      by (simp add: numeros_def facturas_ejemplo_def join_def)
  qed
  have s3: "es_error (fst (consultar_mis_facturas_sse numeros sse_caida ''ana@inmo.es'' None None 5))"
    using caida res(3) by simp
  have t1: "fst (buscar_factura_por_propiedad_sse numeros sse_ejemplo ''ana@inmo.es'' ''Velazquez'')
     = ''No se encontr'' @ o_acute @ '' nada.''"
    using filas cs res ex by simp
  have t2: "es_error (fst (buscar_factura_por_propiedad_sse numeros sse_caida ''ana@inmo.es'' ''Velazquez''))"
    using caida res(3) by simp
  have h1: "fst (consultar_facturas (db_filas ([] :: string factura_row list))
             \<lparr>estado = None, fecha_inicio = None, fecha_fin = None, limit = 5\<rparr> (Some ''B12345678''))
     = Inr (JObj
         [(''count'', JInt 0),
          (''data'', JRows []),
          (''filtros_aplicados'', JObj
             [(''estado'', JNull), (''fecha_inicio'', JNull), (''fecha_fin'', JNull),
              (''limit'', JInt 5), (''agent_cif'', JStr ''B12345678'')])])"
    using vacio ok by (simp add: db_filas_def json_str_def)
  have h2: "fst (consultar_facturas (db_filas facturas_ejemplo)
             \<lparr>estado = None, fecha_inicio = None, fecha_fin = None, limit = 5\<rparr> (Some ''B12345678''))
     = Inr (JObj
         [(''count'', JInt 3),
          (''data'', JRows facturas_ejemplo),
          (''filtros_aplicados'', JObj
             [(''estado'', JNull), (''fecha_inicio'', JNull), (''fecha_fin'', JNull),
              (''limit'', JInt 5), (''agent_cif'', JStr ''B12345678'')])])"
    using filas ok ne(2) by (simp add: db_filas_def json_str_def)
  have h3: "isl (fst (consultar_facturas (db_caida :: string factura_row db)
                  \<lparr>estado = None, fecha_inicio = None, fecha_fin = None, limit = 5\<rparr>
                  (Some ''B12345678'')))"
    using caida by (simp add: db_caida_def)
  have z1: "fst (consultar_stats_zonas (db_filas ([] :: string factura_row list))
             \<lparr>nombre_zona = Some ''Ruzafa'', limit = 10\<rparr>)
     = Inr (JObj
         [(''mensaje'', JStr (''No se encontraron datos para la zona '' @ quote @ ''Ruzafa'' @ quote)),
          (''data'', JRows [])])"
    using vacio by (simp add: db_filas_def str_optional_def)
  have z2: "fst (consultar_stats_zonas (db_filas facturas_ejemplo) \<lparr>nombre_zona = None, limit = 10\<rparr>)
     = Inr (JObj
         [(''count'', JInt 3), (''tipo_busqueda'', JStr ''Top Mercado''),
          (''data'', JRows facturas_ejemplo)])"
    using filas ne by (simp add: db_filas_def truthy_def)
  have z3: "isl (fst (consultar_stats_zonas (db_caida :: string factura_row db)
                  \<lparr>nombre_zona = None, limit = 10\<rparr>))"
    using caida by (simp add: db_caida_def)
  show ?thesis
    using a1 a2 a3 a4 b1 b2 s1 s2 s3 t1 t2 h1 h2 h3 z1 z2 z3 by blast
qed






text \<open>
  C7 does not hold of the tool server with the gatekeeper. Its search answers with
  Python's text of the list of rows, where the score is the float the database returned,
  \<open>'score': 0.625\<close>, not an integer percentage.
\<close>

theorem busqueda_sse_sin_porcentaje_counterexample:
  "buscar_factura_por_propiedad_sse str_filas sse_vista ''ana@inmo.es'' ''Velazquez''
     = (''[{'' @ quote @ ''numero_factura'' @ quote @ '': '' @ quote @ ''F-006'' @ quote
         @ '', '' @ quote @ ''estado_legible'' @ quote @ '': '' @ quote @ ''PAGADA'' @ quote
         @ '', '' @ quote @ ''total'' @ quote @ '': Decimal('' @ quote @ ''100.00'' @ quote
         @ ''), '' @ quote @ ''moneda'' @ quote @ '': '' @ quote @ ''EUR'' @ quote @ '', ''
         @ quote @ ''emisor_direccion_calle'' @ quote @ '': '' @ quote @ ''Paseo Velazquez''
         @ quote @ '', '' @ quote @ ''score'' @ quote @ '': 0.625}, {'' @ quote
         @ ''numero_factura'' @ quote @ '': '' @ quote @ ''F-005'' @ quote @ '', '' @ quote
         @ ''estado_legible'' @ quote @ '': '' @ quote @ ''PAGADA'' @ quote @ '', '' @ quote
         @ ''total'' @ quote @ '': Decimal('' @ quote @ ''100.00'' @ quote @ ''), '' @ quote
         @ ''moneda'' @ quote @ '': '' @ quote @ ''EUR'' @ quote @ '', '' @ quote
         @ ''emisor_direccion_calle'' @ quote @ '': '' @ quote @ ''Avenida Velazquez 3''
         @ quote @ '', '' @ quote @ ''score'' @ quote @ '': 0.5}, {'' @ quote
         @ ''numero_factura'' @ quote @ '': '' @ quote @ ''F-001'' @ quote @ '', '' @ quote
         @ ''estado_legible'' @ quote @ '': '' @ quote @ ''PAGADA'' @ quote @ '', '' @ quote
         @ ''total'' @ quote @ '': Decimal('' @ quote @ ''100.00'' @ quote @ ''), '' @ quote
         @ ''moneda'' @ quote @ '': '' @ quote @ ''EUR'' @ quote @ '', '' @ quote
         @ ''emisor_direccion_calle'' @ quote @ '': '' @ quote @ ''Calle Vel'' @ a_acute
         @ ''zquez 12'' @ quote @ '', '' @ quote @ ''score'' @ quote @ '': 0.4375}]'',
        [Connect, Execute gatekeeper_query [PStr ''ana@inmo.es''],
         Execute propiedad_query_sse [PStr ''Velazquez'', PStr ''B12345678'', PStr ''Velazquez'']])"
  by (simp add: sse_buscar_eq sse_vista_simps resolve_vista ejecutar_propiedad_sse select_ejemplo
        str_filas_def str_fila_def repr_score_def con_score_def fila_vista_def join_def
        velazquez_def quote_def a_acute_def)

text \<open>
  C7, amended. On both tool servers the search by address executes one statement on the
  data whose arguments are the term, the agent's key and the term again: the first
  placeholder is the second argument of \<open>similarity\<close> in the projection of the score,
  the third is the right side of the trigram operator in the filter. The statement orders
  by descending score and limits to 3, so over any view the database returns at most 3
  rows, by descending score, each a row of the agent whose address matches the term, and
  the tool lists them in that order. The server of agent\_server.py writes one line for
  each row, with \<open>int(score * 100)\<close> as the percentage; the server with the gatekeeper
  returns Python's text of the rows, with the score as the database returned it. When no
  address of the agent matches, each answers with its own sentence that nothing was
  found.
\<close>

theorem busqueda_por_propiedad:
  "buscar_factura_por_propiedad py_str pct (Some cif) (vista_db sim trgm view) q =
     (if select_propiedad sim trgm view q cif = []
      then ''No encontr'' @ e_acute @ '' ninguna factura relacionada con la direcci'' @ o_acute
             @ ''n '' @ quote @ q @ quote @ ''.''
      else ''Resultados para '' @ quote @ q @ quote @ '':'' @ newline
             @ concat (map (\<lambda>r. ''- [Coincidencia: '' @ str_int (pct (score r)) @ ''%] Propiedad: '' @ quote
                       @ emisor_direccion_calle r @ quote @ '' -> Factura ''
                       @ py_str (numero_factura r) @ '' ('' @ py_str (estado_legible r)
                       @ ''): '' @ py_str (total' r) @ '' '' @ py_str (moneda r) @ ''.''
                       @ newline)
                 (select_propiedad sim trgm view q cif)),
      [Connect, Execute propiedad_query [PStr q, PStr cif, PStr q]])
   \<and> (connect conn = None \<and> execute conn = ejecutar_busqueda sim trgm view
        \<and> fst (resolve_cif_from_email email conn) = Inr cif \<longrightarrow>
        buscar_factura_por_propiedad_sse str_rows conn email q =
          (if select_propiedad sim trgm view q cif = [] then ''No se encontr'' @ o_acute @ '' nada.''
           else str_rows (select_propiedad sim trgm view q cif),
           [Connect, Execute gatekeeper_query [PStr email],
            Execute propiedad_query_sse [PStr q, PStr cif, PStr q]]))
   \<and> list_all2 ends_with (placeholders propiedad_query)
        [''similarity(emisor_direccion_calle, '', ''WHERE emisor_cif = '',
         ''AND emisor_direccion_calle %% '']
   \<and> list_all2 ends_with (placeholders propiedad_query_sse)
        [''similarity(emisor_direccion_calle, '', ''WHERE emisor_cif = '',
         ''AND emisor_direccion_calle %% '']
   \<and> length (select_propiedad sim trgm view q cif) \<le> 3
   \<and> sorted_wrt (\<lambda>a b. score b \<le> score a) (select_propiedad sim trgm view q cif)
   \<and> set (select_propiedad sim trgm view q cif)
        \<subseteq> (\<lambda>v. con_score (sim (emisor_direccion_calle v) q) v)
             ` {v \<in> set view. emisor_cif v = cif \<and> trgm (emisor_direccion_calle v) q}
   \<and> ((select_propiedad sim trgm view q cif = [])
        = (\<forall>v \<in> set view. emisor_cif v = cif \<longrightarrow> \<not> trgm (emisor_direccion_calle v) q))"
proof (intro conjI impI)
  show "buscar_factura_por_propiedad py_str pct (Some cif) (vista_db sim trgm view) q =
     (if select_propiedad sim trgm view q cif = []
      then ''No encontr'' @ e_acute @ '' ninguna factura relacionada con la direcci'' @ o_acute
             @ ''n '' @ quote @ q @ quote @ ''.''
      else ''Resultados para '' @ quote @ q @ quote @ '':'' @ newline
             @ concat (map (\<lambda>r. ''- [Coincidencia: '' @ str_int (pct (score r)) @ ''%] Propiedad: '' @ quote
                       @ emisor_direccion_calle r @ quote @ '' -> Factura ''
                       @ py_str (numero_factura r) @ '' ('' @ py_str (estado_legible r)
                       @ ''): '' @ py_str (total' r) @ '' '' @ py_str (moneda r) @ ''.''
                       @ newline)
                 (select_propiedad sim trgm view q cif)),
      [Connect, Execute propiedad_query [PStr q, PStr cif, PStr q]])"
    by (simp add: buscar_eq vista_db_def opt_param_def ejecutar_propiedad sin_propiedad_def
          propiedad_linea_def [abs_def])
  show "list_all2 ends_with (placeholders propiedad_query)
        [''similarity(emisor_direccion_calle, '', ''WHERE emisor_cif = '',
         ''AND emisor_direccion_calle %% '']"
    by (rule placeholders_propiedad)
  show "list_all2 ends_with (placeholders propiedad_query_sse)
        [''similarity(emisor_direccion_calle, '', ''WHERE emisor_cif = '',
         ''AND emisor_direccion_calle %% '']"
    by (rule placeholders_propiedad)
  show "length (select_propiedad sim trgm view q cif) \<le> 3"
    by (rule select_propiedad_length)
  show "sorted_wrt (\<lambda>a b. score b \<le> score a) (select_propiedad sim trgm view q cif)"
    by (rule select_propiedad_sorted)
  show "set (select_propiedad sim trgm view q cif)
        \<subseteq> (\<lambda>v. con_score (sim (emisor_direccion_calle v) q) v)
             ` {v \<in> set view. emisor_cif v = cif \<and> trgm (emisor_direccion_calle v) q}"
    by (rule select_propiedad_set)
  show "(select_propiedad sim trgm view q cif = [])
        = (\<forall>v \<in> set view. emisor_cif v = cif \<longrightarrow> \<not> trgm (emisor_direccion_calle v) q)"
    by (rule select_propiedad_empty)
next
  assume "connect conn = None \<and> execute conn = ejecutar_busqueda sim trgm view
        \<and> fst (resolve_cif_from_email email conn) = Inr cif"
  then show "buscar_factura_por_propiedad_sse str_rows conn email q =
          (if select_propiedad sim trgm view q cif = [] then ''No se encontr'' @ o_acute @ '' nada.''
           else str_rows (select_propiedad sim trgm view q cif),
           [Connect, Execute gatekeeper_query [PStr email],
            Execute propiedad_query_sse [PStr q, PStr cif, PStr q]])"
    by (simp add: sse_buscar_eq ejecutar_propiedad_sse)
qed

theorem busqueda_por_propiedad_witness:
  "buscar_factura_por_propiedad id por_cien_ejemplo (Some ''B12345678'')
        (vista_db sim_ejemplo trgm_ejemplo vista_ejemplo) ''Velazquez''
     = (''Resultados para '' @ quote @ ''Velazquez'' @ quote @ '':'' @ newline
        @ ''- [Coincidencia: 62%] Propiedad: '' @ quote @ ''Paseo Velazquez'' @ quote
        @ '' -> Factura F-006 (PAGADA): 100.00 EUR.'' @ newline
        @ ''- [Coincidencia: 50%] Propiedad: '' @ quote @ ''Avenida Velazquez 3'' @ quote
        @ '' -> Factura F-005 (PAGADA): 100.00 EUR.'' @ newline
        @ ''- [Coincidencia: 43%] Propiedad: '' @ quote @ velazquez @ quote
        @ '' -> Factura F-001 (PAGADA): 100.00 EUR.'' @ newline,
        [Connect, Execute propiedad_query [PStr ''Velazquez'', PStr ''B12345678'', PStr ''Velazquez'']])
   \<and> buscar_factura_por_propiedad id por_cien_ejemplo (Some ''B00000000'')
         (vista_db sim_ejemplo trgm_ejemplo vista_ejemplo) ''Velazquez''
       = (''No encontr'' @ e_acute @ '' ninguna factura relacionada con la direcci'' @ o_acute
            @ ''n '' @ quote @ ''Velazquez'' @ quote @ ''.'',
          [Connect, Execute propiedad_query [PStr ''Velazquez'', PStr ''B00000000'', PStr ''Velazquez'']])
   \<and> connect sse_vista = None
   \<and> execute sse_vista = ejecutar_busqueda sim_ejemplo trgm_ejemplo vista_ejemplo
   \<and> fst (resolve_cif_from_email ''LUIS@inmo.es'' sse_vista) = Inr ''B87654321''
   \<and> buscar_factura_por_propiedad_sse str_filas sse_vista ''LUIS@inmo.es'' ''Velazquez''
       = (''[{'' @ quote @ ''numero_factura'' @ quote @ '': '' @ quote @ ''F-004'' @ quote
           @ '', '' @ quote @ ''estado_legible'' @ quote @ '': '' @ quote @ ''PAGADA'' @ quote
           @ '', '' @ quote @ ''total'' @ quote @ '': Decimal('' @ quote @ ''100.00'' @ quote
           @ ''), '' @ quote @ ''moneda'' @ quote @ '': '' @ quote @ ''EUR'' @ quote @ '', ''
           @ quote @ ''emisor_direccion_calle'' @ quote @ '': '' @ quote @ ''Paseo Velazquez''
           @ quote @ '', '' @ quote @ ''score'' @ quote @ '': 0.625}]'',
          [Connect, Execute gatekeeper_query [PStr ''LUIS@inmo.es''],
           Execute propiedad_query_sse [PStr ''Velazquez'', PStr ''B87654321'', PStr ''Velazquez'']])"
proof -
  note a = busqueda_por_propiedad [where py_str = id and pct = por_cien_ejemplo
      and cif = "''B12345678''" and sim = sim_ejemplo and trgm = trgm_ejemplo
      and view = vista_ejemplo and q = "''Velazquez''" and conn = sse_vista
      and email = "''ana@inmo.es''" and str_rows = str_filas, THEN conjunct1]
  note b = busqueda_por_propiedad [where py_str = id and pct = por_cien_ejemplo
      and cif = "''B00000000''" and sim = sim_ejemplo and trgm = trgm_ejemplo
      and view = vista_ejemplo and q = "''Velazquez''" and conn = sse_vista
      and email = "''ana@inmo.es''" and str_rows = str_filas, THEN conjunct1]
  note c = busqueda_por_propiedad [where py_str = id and pct = por_cien_ejemplo
      and cif = "''B87654321''" and sim = sim_ejemplo and trgm = trgm_ejemplo
      and view = vista_ejemplo and q = "''Velazquez''" and conn = sse_vista
      and email = "''LUIS@inmo.es''" and str_rows = str_filas, THEN conjunct2, THEN conjunct1]
  have h: "connect sse_vista = None
      \<and> execute sse_vista = ejecutar_busqueda sim_ejemplo trgm_ejemplo vista_ejemplo
      \<and> fst (resolve_cif_from_email ''LUIS@inmo.es'' sse_vista) = Inr ''B87654321''"
    by (simp add: sse_vista_simps resolve_vista)
  have r1: "buscar_factura_por_propiedad id por_cien_ejemplo (Some ''B12345678'')
        (vista_db sim_ejemplo trgm_ejemplo vista_ejemplo) ''Velazquez''
     = (''Resultados para '' @ quote @ ''Velazquez'' @ quote @ '':'' @ newline
        @ ''- [Coincidencia: 62%] Propiedad: '' @ quote @ ''Paseo Velazquez'' @ quote
        @ '' -> Factura F-006 (PAGADA): 100.00 EUR.'' @ newline
        @ ''- [Coincidencia: 50%] Propiedad: '' @ quote @ ''Avenida Velazquez 3'' @ quote
        @ '' -> Factura F-005 (PAGADA): 100.00 EUR.'' @ newline
        @ ''- [Coincidencia: 43%] Propiedad: '' @ quote @ velazquez @ quote
        @ '' -> Factura F-001 (PAGADA): 100.00 EUR.'' @ newline,
        [Connect, Execute propiedad_query [PStr ''Velazquez'', PStr ''B12345678'', PStr ''Velazquez'']])"
    using a
    by (simp add: select_ejemplo con_score_def fila_vista_def str_int_def por_cien_ejemplo_def
          str_nat.simps digit_char_def)
  have r2: "buscar_factura_por_propiedad id por_cien_ejemplo (Some ''B00000000'')
         (vista_db sim_ejemplo trgm_ejemplo vista_ejemplo) ''Velazquez''
       = (''No encontr'' @ e_acute @ '' ninguna factura relacionada con la direcci'' @ o_acute
            @ ''n '' @ quote @ ''Velazquez'' @ quote @ ''.'',
          [Connect, Execute propiedad_query [PStr ''Velazquez'', PStr ''B00000000'', PStr ''Velazquez'']])"
    using b by (simp add: select_ejemplo)
  have r3: "buscar_factura_por_propiedad_sse str_filas sse_vista ''LUIS@inmo.es'' ''Velazquez''
       = (''[{'' @ quote @ ''numero_factura'' @ quote @ '': '' @ quote @ ''F-004'' @ quote
           @ '', '' @ quote @ ''estado_legible'' @ quote @ '': '' @ quote @ ''PAGADA'' @ quote
           @ '', '' @ quote @ ''total'' @ quote @ '': Decimal('' @ quote @ ''100.00'' @ quote
           @ ''), '' @ quote @ ''moneda'' @ quote @ '': '' @ quote @ ''EUR'' @ quote @ '', ''
           @ quote @ ''emisor_direccion_calle'' @ quote @ '': '' @ quote @ ''Paseo Velazquez''
           @ quote @ '', '' @ quote @ ''score'' @ quote @ '': 0.625}]'',
          [Connect, Execute gatekeeper_query [PStr ''LUIS@inmo.es''],
           Execute propiedad_query_sse [PStr ''Velazquez'', PStr ''B87654321'', PStr ''Velazquez'']])"
    using c [rule_format, OF h]
    by (simp add: select_ejemplo str_filas_def str_fila_def repr_score_def con_score_def
          fila_vista_def join_def quote_def)
  show ?thesis
    using r1 r2 r3 h by simp
qed

text \<open>
  C4, on the code: the dates \<open>2024-10-01\<close> and \<open>2024-9-01\<close>. Both pass
  \<open>validar_fecha\<close>, the second without the two-digit month of \<open>YYYY-MM-DD\<close>, and
  the first is the later day; the range check compares the texts, finds the first the
  smaller, and both invoice operations go on to execute the statement.
\<close>

theorem fechas_sin_ceros:
  "strptime ''2024-10-01'' = Some (2024, 10, 1)
   \<and> strptime ''2024-9-01'' = Some (2024, 9, 1)
   \<and> validar_fecha ''2024-9-01''
   \<and> \<not> str_gt ''2024-10-01'' ''2024-9-01''
   \<and> consultar_facturas db_ejemplo
        \<lparr>estado = None, fecha_inicio = Some ''2024-10-01'', fecha_fin = Some ''2024-9-01'', limit = 5\<rparr>
        (Some ''B12345678'')
       = (Inr (JObj
            [(''count'', JInt 0),
             (''data'', JRows []),
             (''filtros_aplicados'', JObj
                [(''estado'', JNull), (''fecha_inicio'', JStr ''2024-10-01''),
                 (''fecha_fin'', JStr ''2024-9-01''), (''limit'', JInt 5),
                 (''agent_cif'', JStr ''B12345678'')])]),
          [Connect,
           Execute (base_http @ '' AND fecha_emision >= %s'' @ '' AND fecha_emision <= %s''
                      @ '' ORDER BY fecha_emision DESC LIMIT %s'')
             [PStr ''B12345678'', PStr ''2024-10-01'', PStr ''2024-9-01'', PInt 5]])
   \<and> consultar_mis_facturas id (Some ''B12345678'') db_ejemplo None (Some ''2024-10-01'')
        (Some ''2024-9-01'') 5
       = (sin_facturas,
          [Connect,
           Execute (base_agent @ '' AND fecha_emision >= %s'' @ '' AND fecha_emision <= %s''
                      @ '' ORDER BY fecha_emision DESC LIMIT %s'')
             [PStr ''B12345678'', PStr ''2024-10-01'', PStr ''2024-9-01'', PInt 5]])"
proof -
  have s: "strptime ''2024-10-01'' = Some (2024, 10, 1)" "strptime ''2024-9-01'' = Some (2024, 9, 1)"
    by (simp_all add: fecha_defs)
  have g: "\<not> str_gt ''2024-10-01'' ''2024-9-01''"
    by simp
  have ok: "\<not> rechazado None (Some ''2024-10-01'') (Some ''2024-9-01'')"
    using g by (simp add: rechazado_def truthy_def the_str_def validar_fecha_ejemplos)
  have h: "consultar_facturas db_ejemplo
        \<lparr>estado = None, fecha_inicio = Some ''2024-10-01'', fecha_fin = Some ''2024-9-01'', limit = 5\<rparr>
        (Some ''B12345678'')
       = (Inr (JObj
            [(''count'', JInt 0),
             (''data'', JRows []),
             (''filtros_aplicados'', JObj
                [(''estado'', JNull), (''fecha_inicio'', JStr ''2024-10-01''),
                 (''fecha_fin'', JStr ''2024-9-01''), (''limit'', JInt 5),
                 (''agent_cif'', JStr ''B12345678'')])]),
          [Connect,
           Execute (base_http @ '' AND fecha_emision >= %s'' @ '' AND fecha_emision <= %s''
                      @ '' ORDER BY fecha_emision DESC LIMIT %s'')
             [PStr ''B12345678'', PStr ''2024-10-01'', PStr ''2024-9-01'', PInt 5]])"
    by (simp add: http_aceptado [OF ok] facturas_query_fst argumentos_def truthy_def opt_param_def
          db_ejemplo_def json_str_def)
  have a: "consultar_mis_facturas id (Some ''B12345678'') db_ejemplo None (Some ''2024-10-01'')
        (Some ''2024-9-01'') 5
       = (sin_facturas,
          [Connect,
           Execute (base_agent @ '' AND fecha_emision >= %s'' @ '' AND fecha_emision <= %s''
                      @ '' ORDER BY fecha_emision DESC LIMIT %s'')
             [PStr ''B12345678'', PStr ''2024-10-01'', PStr ''2024-9-01'', PInt 5]])"
    by (simp add: agent_aceptado [OF ok] facturas_query_fst argumentos_def truthy_def opt_param_def
          db_ejemplo_def)
  show ?thesis
    using s g h a validar_fecha_ejemplos(4) by blast
qed

text \<open>
  C6, on the code: the performance of a year with no row. The data of the answer has the
  three keys \<open>ventas\<close>, \<open>facturado\<close> and \<open>cobrado\<close>, and no \<open>pendiente_cobro\<close>,
  which the answer of the aggregate statement with no row has.
\<close>

theorem anual_sin_pendiente_cobro:
  "(obtener_performance float_de menos perf_sin_filas \<lparr>anyo = Some 2023\<rparr> ''ana@inmo.es''
      :: (http_error + unit json) \<times> event list)
     = (Inr (JObj
          [(''periodo'', JInt 2023),
           (''tipo'', JStr ''Anual''),
           (''mensaje'', JStr (''No hay datos registrados para el a'' @ n_tilde @ ''o 2023.'')),
           (''data'', JObj
              [(''ventas'', JInt 0), (''facturado'', JFloat 0), (''cobrado'', JFloat 0)])]),
        [Connect, Execute query_anual [PStr ''ana@inmo.es'', PInt 2023]])
   \<and> fst (obtener_performance float_de menos perf_sin_filas \<lparr>anyo = None\<rparr> ''ana@inmo.es''
            :: (http_error + unit json) \<times> event list)
       = Inr (JObj
          [(''periodo'', JStr historico),
           (''tipo'', JStr ''Acumulado''),
           (''mensaje'', JStr ''No hay datos registrados para este agente.''),
           (''data'', JObj
              [(''ventas'', JInt 0), (''facturado'', JFloat 0), (''cobrado'', JFloat 0),
               (''pendiente_cobro'', JFloat 0)])])"
  by (simp add: obtener_performance_def perf_sin_filas_def fetchone_def anual_def acumulado_def
        sin_datos_acumulado_def str_int_def str_nat.simps digit_char_def)

end
